theory Spec2Isabelle
  imports Complex_Main
begin

section \<open>Strings\<close>

text \<open>
  Strings are \<^typ>\<open>string\<close> (lists of 8-bit characters); deployment names, error messages
  and endpoints are treated as ASCII text. The three JavaScript string methods the provider
  uses are written out: \<open>s.startsWith(p)\<close>, \<open>s.includes(sub)\<close> and \<open>s.toLowerCase()\<close>.
\<close>

fun startsWith :: "string \<Rightarrow> string \<Rightarrow> bool" where
  "startsWith s [] = True"
| "startsWith [] (p # ps) = False"
| "startsWith (c # cs) (p # ps) = (c = p \<and> startsWith cs ps)"

fun str_includes :: "string \<Rightarrow> string \<Rightarrow> bool" where
  "str_includes [] sub = (sub = [])"
| "str_includes (c # cs) sub = (startsWith (c # cs) sub \<or> str_includes cs sub)"

definition lower_char :: "char \<Rightarrow> char" where
  "lower_char c =
     (case map_of (zip ''ABCDEFGHIJKLMNOPQRSTUVWXYZ'' ''abcdefghijklmnopqrstuvwxyz'') c of
        Some l \<Rightarrow> l
      | None \<Rightarrow> c)"

definition toLowerCase :: "string \<Rightarrow> string" where
  "toLowerCase s = map lower_char s"

text \<open>
  JavaScript truthiness of an optional string (\<open>undefined\<close> and \<open>""\<close> are falsy) and of an
  optional boolean (\<open>undefined\<close> and \<open>false\<close> are falsy).
\<close>

definition truthy_str :: "string option \<Rightarrow> bool" where
  "truthy_str v = (case v of None \<Rightarrow> False | Some s \<Rightarrow> s \<noteq> [])"

definition truthy_bool :: "bool option \<Rightarrow> bool" where
  "truthy_bool v = (v = Some True)"

section \<open>Capability records and the static tables\<close>

text \<open>
  \<open>ModelInfo\<close> and \<open>Partial<ModelInfo>\<close>: every key the tables use, each one optional
  (\<^term>\<open>None\<close> is a key that the object literal does not have).
\<close>

record model_info =
  maxTokens :: "nat option"
  contextWindow :: "nat option"
  supportsImages :: "bool option"
  supportsPromptCache :: "bool option"
  supportsReasoning :: "bool option"
  inputPrice :: "rat option"
  outputPrice :: "rat option"

text \<open>
  One table entry. The four leading keys are present in every entry of both tables;
  \<open>supportsReasoning\<close>, \<open>inputPrice\<close> and \<open>outputPrice\<close> are present in some only.
\<close>

definition caps ::
  "nat \<Rightarrow> nat \<Rightarrow> bool \<Rightarrow> bool \<Rightarrow> bool option \<Rightarrow> rat option \<Rightarrow> rat option \<Rightarrow> model_info" where
  "caps mt cw img pc sr ip op =
     \<lparr>maxTokens = Some mt, contextWindow = Some cw, supportsImages = Some img,
      supportsPromptCache = Some pc, supportsReasoning = sr, inputPrice = ip, outputPrice = op\<rparr>"

text \<open>
  \<open>FOUNDRY_MODEL_CAPABILITIES\<close> of the provider (microsoft-foundry.ts), in the order of
  the object literal. No key is an integer index, so \<open>Object.entries\<close> enumerates the
  keys in exactly this order.
\<close>

definition FOUNDRY_MODEL_CAPABILITIES :: "(string \<times> model_info) list" where
  "FOUNDRY_MODEL_CAPABILITIES =
     [(''gpt-5'', caps 32768 256000 True True None (Some 5) (Some 20)),
      (''gpt-5-mini'', caps 32768 256000 True True None (Some 1) (Some 4)),
      (''gpt-5.2'', caps 32768 256000 True True None (Some 5) (Some 20)),
      (''gpt-5.2-chat'', caps 32768 256000 True True None (Some 5) (Some 20)),
      (''gpt-4o'', caps 16384 128000 True False None (Some 2.5) (Some 10)),
      (''gpt-4o-mini'', caps 16384 128000 True False None (Some 0.15) (Some 0.6)),
      (''gpt-4'', caps 8192 128000 False False None (Some 30) (Some 60)),
      (''gpt-4-turbo'', caps 4096 128000 True False None (Some 10) (Some 30)),
      (''o1'', caps 100000 200000 True False (Some True) (Some 15) (Some 60)),
      (''o1-mini'', caps 65536 128000 False False (Some True) (Some 3) (Some 12)),
      (''o1-preview'', caps 32768 128000 False False (Some True) (Some 15) (Some 60)),
      (''o3'', caps 100000 200000 True False (Some True) (Some 10) (Some 40)),
      (''o3-mini'', caps 65536 200000 False False (Some True) (Some 1.1) (Some 4.4)),
      (''gpt-4.1'', caps 32768 1047576 True False None (Some 2) (Some 8)),
      (''gpt-4.1-mini'', caps 32768 1047576 True False None (Some 0.4) (Some 1.6)),
      (''gpt-4.1-nano'', caps 32768 1047576 True False None (Some 0.1) (Some 0.4)),
      (''o1-pro'', caps 100000 200000 True False (Some True) (Some 150) (Some 600)),
      (''o4-mini'', caps 65536 200000 True False (Some True) (Some 1.1) (Some 4.4)),
      (''gpt-35-turbo'', caps 4096 16385 False False None (Some 0.5) (Some 1.5)),
      (''claude-sonnet-4-5'', caps 8192 200000 True True (Some True) (Some 3) (Some 15)),
      (''claude-opus-4'', caps 8192 200000 True True (Some True) (Some 15) (Some 75)),
      (''claude-haiku-4'', caps 8192 200000 True True None (Some 0.8) (Some 4)),
      (''Phi-4'', caps 16384 128000 False False None (Some 0) (Some 0)),
      (''Phi-4-mini'', caps 16384 128000 False False None (Some 0) (Some 0)),
      (''Phi-4-multimodal'', caps 16384 128000 True False None (Some 0) (Some 0)),
      (''Llama-3.3-70B'', caps 8192 128000 False False None (Some 0) (Some 0)),
      (''Llama-4'', caps 8192 128000 False False None (Some 0) (Some 0)),
      (''DeepSeek-V3'', caps 8192 128000 False False None (Some 0) (Some 0)),
      (''mistral-medium'', caps 8192 128000 False False None (Some 0) (Some 0)),
      (''grok'', caps 8192 128000 False False None (Some 0) (Some 0)),
      (''grok-3'', caps 8192 128000 False False None (Some 0) (Some 0)),
      (''grok-4'', caps 8192 128000 False False None (Some 0) (Some 0))]"

definition DEFAULT_MODEL_INFO :: model_info where
  "DEFAULT_MODEL_INFO =
     \<lparr>maxTokens = Some 4096, contextWindow = Some 128000, supportsImages = Some False,
      supportsPromptCache = Some False, supportsReasoning = None,
      inputPrice = Some 0, outputPrice = Some 0\<rparr>"

text \<open>
  \<open>MODEL_CAPABILITIES\<close> and \<open>DEFAULT_MODEL_INFO\<close> of the settings component
  (MicrosoftFoundryProvider.tsx): the same keys in another order, without prices.
\<close>

definition MODEL_CAPABILITIES :: "(string \<times> model_info) list" where
  "MODEL_CAPABILITIES =
     [(''gpt-5'', caps 32768 256000 True True None None None),
      (''gpt-5-mini'', caps 32768 256000 True True None None None),
      (''gpt-5.2'', caps 32768 256000 True True None None None),
      (''gpt-5.2-chat'', caps 32768 256000 True True None None None),
      (''gpt-4o'', caps 16384 128000 True False None None None),
      (''gpt-4o-mini'', caps 16384 128000 True False None None None),
      (''gpt-4.1'', caps 32768 1047576 True False None None None),
      (''gpt-4.1-mini'', caps 32768 1047576 True False None None None),
      (''gpt-4.1-nano'', caps 32768 1047576 True False None None None),
      (''gpt-4'', caps 8192 128000 False False None None None),
      (''gpt-4-turbo'', caps 4096 128000 True False None None None),
      (''o1-pro'', caps 100000 200000 True False (Some True) None None),
      (''o1'', caps 100000 200000 True False (Some True) None None),
      (''o1-mini'', caps 65536 128000 False False (Some True) None None),
      (''o1-preview'', caps 32768 128000 False False (Some True) None None),
      (''o3'', caps 100000 200000 True False (Some True) None None),
      (''o3-mini'', caps 65536 200000 False False (Some True) None None),
      (''o4-mini'', caps 65536 200000 True False (Some True) None None),
      (''gpt-35-turbo'', caps 4096 16385 False False None None None),
      (''claude-sonnet-4-5'', caps 8192 200000 True True (Some True) None None),
      (''claude-opus-4'', caps 8192 200000 True True (Some True) None None),
      (''claude-haiku-4'', caps 8192 200000 True True None None None),
      (''Phi-4'', caps 16384 128000 False False None None None),
      (''Phi-4-mini'', caps 16384 128000 False False None None None),
      (''Phi-4-multimodal'', caps 16384 128000 True False None None None),
      (''Llama-3.3-70B'', caps 8192 128000 False False None None None),
      (''Llama-4'', caps 8192 128000 False False None None None),
      (''DeepSeek-V3'', caps 8192 128000 False False None None None),
      (''mistral-medium'', caps 8192 128000 False False None None None),
      (''grok'', caps 8192 128000 False False None None None),
      (''grok-3'', caps 8192 128000 False False None None None),
      (''grok-4'', caps 8192 128000 False False None None None)]"

definition DEFAULT_MODEL_INFO_ui :: model_info where
  "DEFAULT_MODEL_INFO_ui =
     \<lparr>maxTokens = Some 4096, contextWindow = Some 128000, supportsImages = Some False,
      supportsPromptCache = Some False, supportsReasoning = None,
      inputPrice = None, outputPrice = None\<rparr>"

text \<open>Object spread \<open>{ ...a, ...b }\<close>: a key that \<open>b\<close> has overrides the one of \<open>a\<close>.\<close>

definition over :: "'a option \<Rightarrow> 'a option \<Rightarrow> 'a option" where
  "over a b = (case b of Some v \<Rightarrow> Some v | None \<Rightarrow> a)"

definition spread :: "model_info \<Rightarrow> model_info \<Rightarrow> model_info" where
  "spread a b =
     \<lparr>maxTokens = over (maxTokens a) (maxTokens b),
      contextWindow = over (contextWindow a) (contextWindow b),
      supportsImages = over (supportsImages a) (supportsImages b),
      supportsPromptCache = over (supportsPromptCache a) (supportsPromptCache b),
      supportsReasoning = over (supportsReasoning a) (supportsReasoning b),
      inputPrice = over (inputPrice a) (inputPrice b),
      outputPrice = over (outputPrice a) (outputPrice b)\<rparr>"

text \<open>
  The tables are object literals, so \<open>TABLE[modelName]\<close> also finds what
  \<open>Object.prototype\<close> provides. Each of these inherited values is truthy (a function, or
  the prototype object for \<open>__proto__\<close>) and has no enumerable own property, so that
  spreading it over the default adds nothing.
\<close>

definition object_prototype_keys :: "string list" where
  "object_prototype_keys =
     [''constructor'', ''hasOwnProperty'', ''isPrototypeOf'', ''propertyIsEnumerable'',
      ''toLocaleString'', ''toString'', ''valueOf'', ''__proto__'',
      ''__defineGetter__'', ''__defineSetter__'', ''__lookupGetter__'', ''__lookupSetter__'']"

text \<open>
  The \<open>for (const [prefix, capabilities] of Object.entries(TABLE))\<close> loop: the first
  entry, in table order, whose key the name starts with.
\<close>

fun first_prefix_match :: "(string \<times> model_info) list \<Rightarrow> string \<Rightarrow> (string \<times> model_info) option" where
  "first_prefix_match [] modelName = None"
| "first_prefix_match ((prefix, capabilities) # rest) modelName =
     (if startsWith modelName prefix then Some (prefix, capabilities)
      else first_prefix_match rest modelName)"

text \<open>
  \<open>getModelCapabilities\<close>, the same text in both files, over its table and default.
\<close>

definition resolve_in :: "(string \<times> model_info) list \<Rightarrow> model_info \<Rightarrow> string \<Rightarrow> model_info" where
  "resolve_in table dflt modelName =
     (case map_of table modelName of
        Some capabilities \<Rightarrow> spread dflt capabilities
      | None \<Rightarrow>
          if modelName \<in> set object_prototype_keys then dflt
          else (case first_prefix_match table modelName of
                  Some (prefix, capabilities) \<Rightarrow> spread dflt capabilities
                | None \<Rightarrow> dflt))"

definition getModelCapabilities :: "string \<Rightarrow> model_info" where
  "getModelCapabilities modelName =
     resolve_in FOUNDRY_MODEL_CAPABILITIES DEFAULT_MODEL_INFO modelName"

definition getModelCapabilities_ui :: "string \<Rightarrow> model_info" where
  "getModelCapabilities_ui modelName =
     resolve_in MODEL_CAPABILITIES DEFAULT_MODEL_INFO_ui modelName"

section \<open>The handler and its configuration\<close>

datatype cloud_environment = Commercial | Government | Stack

text \<open>\<open>MicrosoftFoundryHandlerOptions\<close>: every field is optional.\<close>

record handler_options =
  microsoftFoundryEndpoint :: "string option"
  microsoftFoundryApiKey :: "string option"
  microsoftFoundryDeploymentId :: "string option"
  microsoftFoundryCloudEnvironment :: "cloud_environment option"
  microsoftFoundryUseIdentity :: "bool option"
  microsoftFoundryCustomScope :: "string option"
  microsoftFoundryApiVersion :: "string option"
  microsoftFoundryModelInfo :: "model_info option"
  reasoningEffort :: "string option"

text \<open>The string a truthy optional string holds (used only after a truthiness test).\<close>

definition value_of :: "string option \<Rightarrow> string" where
  "value_of v = (case v of Some s \<Rightarrow> s | None \<Rightarrow> [])"

text \<open>A template literal prints a missing value as \<open>undefined\<close>.\<close>

definition interpolate :: "string option \<Rightarrow> string" where
  "interpolate v = (case v of Some s \<Rightarrow> s | None \<Rightarrow> ''undefined'')"

section \<open>Error messages\<close>

text \<open>
  What \<open>getDetailedErrorMessage\<close> reads of a caught value: \<open>message\<close> is
  \<open>error instanceof Error ? error.message : String(error)\<close>, and \<open>status\<close>,
  \<open>statusCode\<close> are the numeric properties of those names, when it has them.
\<close>

record raw_error =
  message :: string
  status :: "int option"
  statusCode :: "int option"

text \<open>\<open>err?.status || err?.statusCode\<close>: a missing or zero \<open>status\<close> is falsy.\<close>

definition status_of :: "raw_error \<Rightarrow> int option" where
  "status_of err =
     (case status err of
        Some n \<Rightarrow> if n \<noteq> 0 then Some n else statusCode err
      | None \<Rightarrow> statusCode err)"

definition msg_az_login :: string where
  "msg_az_login =
     ''Azure CLI session expired or not authenticated. Run `az login` to re-authenticate, then try again.''"

definition msg_invalid_key :: string where
  "msg_invalid_key = ''Invalid API key. Please verify your Microsoft Foundry API key is correct.''"

definition msg_forbidden :: string where
  "msg_forbidden =
     ''Insufficient permissions. Ensure your account has the '' @ [CHR 0x27] @
     ''Cognitive Services User'' @ [CHR 0x27] @ '' role assigned for this resource.''"

definition msg_deployment_not_found :: "string option \<Rightarrow> string" where
  "msg_deployment_not_found deploymentId =
     ''Deployment '' @ [CHR 0x27] @ interpolate deploymentId @ [CHR 0x27] @ '' not found. '' @
     ''Verify that:'' @ [CHR 0x0A] @
     ''1. The deployment exists in your Azure AI Foundry project'' @ [CHR 0x0A] @
     ''2. The deployment name is spelled correctly'' @ [CHR 0x0A] @
     ''3. The model has been deployed (not just available in the catalog)''"

definition msg_not_found :: string where
  "msg_not_found = ''Resource not found. Verify the endpoint URL is correct.''"

definition msg_rate_limit :: string where
  "msg_rate_limit =
     ''Rate limit exceeded. Please wait a moment and try again, or request a quota increase for your Azure OpenAI resource.''"

definition msg_network :: string where
  "msg_network =
     ''Unable to reach Microsoft Foundry endpoint. Check your network connectivity and verify the endpoint URL is correct.''"

definition msg_default :: "string \<Rightarrow> string" where
  "msg_default m = ''Microsoft Foundry error: '' @ m"

text \<open>The conditions of the five \<open>if\<close> statements of \<open>getDetailedErrorMessage\<close>.\<close>

definition is_401 :: "raw_error \<Rightarrow> bool" where
  "is_401 err =
     (status_of err = Some 401 \<or> str_includes (message err) ''401'' \<or>
      str_includes (message err) ''Unauthorized'')"

definition is_403 :: "raw_error \<Rightarrow> bool" where
  "is_403 err =
     (status_of err = Some 403 \<or> str_includes (message err) ''403'' \<or>
      str_includes (message err) ''Forbidden'')"

definition is_404 :: "raw_error \<Rightarrow> bool" where
  "is_404 err =
     (status_of err = Some 404 \<or> str_includes (message err) ''404'' \<or>
      str_includes (message err) ''Not Found'')"

definition deployment_hint :: "raw_error \<Rightarrow> bool" where
  "deployment_hint err =
     (str_includes (message err) ''deployment'' \<or> str_includes (message err) ''Deployment'' \<or>
      str_includes (message err) ''DeploymentNotFound'')"

definition is_429 :: "raw_error \<Rightarrow> bool" where
  "is_429 err =
     (status_of err = Some 429 \<or> str_includes (message err) ''429'' \<or>
      str_includes (message err) ''Too Many Requests'')"

definition is_network :: "raw_error \<Rightarrow> bool" where
  "is_network err =
     (str_includes (message err) ''ENOTFOUND'' \<or> str_includes (message err) ''ECONNREFUSED'' \<or>
      str_includes (message err) ''network'')"

definition getDetailedErrorMessage :: "handler_options \<Rightarrow> raw_error \<Rightarrow> string" where
  "getDetailedErrorMessage opts err =
     (if is_401 err then
        (if truthy_bool (microsoftFoundryUseIdentity opts) then msg_az_login else msg_invalid_key)
      else if is_403 err then msg_forbidden
      else if is_404 err then
        (if deployment_hint err then msg_deployment_not_found (microsoftFoundryDeploymentId opts)
         else msg_not_found)
      else if is_429 err then msg_rate_limit
      else if is_network err then msg_network
      else msg_default (message err))"

section \<open>The client\<close>

text \<open>
  The constant \<open>azureOpenAiDefaultApiVersion\<close> comes from \<open>@shared/api\<close>, which is not
  among the sources; the model keeps it symbolic.
\<close>

datatype api_version = ApiVersion string | AzureOpenAiDefaultApiVersion

datatype credentials = ApiKey string | AzureADTokenProvider string

text \<open>
  An \<open>AzureOpenAI\<close> client is what its constructor was given: the endpoint, the API key or
  the bearer token provider (with its audience scope), and the API version.
\<close>

record azure_client =
  client_endpoint :: string
  client_credentials :: credentials
  client_apiVersion :: api_version

record handler =
  options :: handler_options
  client :: "azure_client option"

definition msg_stack_scope :: string where
  "msg_stack_scope =
     ''Azure Stack environment requires a custom audience scope. Please configure '' @
     [CHR 0x27] @ ''Custom Scope'' @ [CHR 0x27] @ '' in the provider settings.''"

text \<open>\<open>getAudienceScope\<close>: \<^term>\<open>Inl\<close> is the message of the error it throws.\<close>

definition getAudienceScope :: "handler_options \<Rightarrow> string + string" where
  "getAudienceScope opts =
     (let endpoint = (case microsoftFoundryEndpoint opts of
                        Some e \<Rightarrow> toLowerCase e | None \<Rightarrow> []);
          cloudEnv = (case microsoftFoundryCloudEnvironment opts of
                        Some c \<Rightarrow> c | None \<Rightarrow> Commercial)
      in if cloudEnv = Stack \<and> truthy_str (microsoftFoundryCustomScope opts)
         then Inr (value_of (microsoftFoundryCustomScope opts))
         else if str_includes endpoint ''azure.us''
         then Inr ''https://cognitiveservices.azure.us/.default''
         else if str_includes endpoint ''azure.com''
         then Inr ''https://cognitiveservices.azure.com/.default''
         else (case cloudEnv of
                 Government \<Rightarrow> Inr ''https://cognitiveservices.azure.us/.default''
               | Stack \<Rightarrow>
                   if \<not> truthy_str (microsoftFoundryCustomScope opts) then Inl msg_stack_scope
                   else Inr (value_of (microsoftFoundryCustomScope opts))
               | Commercial \<Rightarrow> Inr ''https://cognitiveservices.azure.com/.default''))"

definition getApiVersion :: "handler_options \<Rightarrow> api_version" where
  "getApiVersion opts =
     (if truthy_str (microsoftFoundryApiVersion opts)
      then ApiVersion (value_of (microsoftFoundryApiVersion opts))
      else AzureOpenAiDefaultApiVersion)"

definition msg_endpoint_required :: string where
  "msg_endpoint_required =
     ''Microsoft Foundry endpoint is required. Please configure the endpoint URL.''"

definition msg_auth_required :: string where
  "msg_auth_required =
     ''Microsoft Foundry requires either an API key or Azure Identity authentication. Please configure one of these options.''"

text \<open>
  The \<open>try\<close> block of \<open>ensureClient\<close> calls into two libraries that are not part of the
  repository: \<open>new DefaultAzureCredential()\<close> and \<open>getBearerTokenProvider\<close> of
  \<open>@azure/identity\<close>, and \<open>new AzureOpenAI\<close> of \<open>openai\<close>. Each of them may throw. What
  each throws, given its arguments, is a parameter of the model; \<^term>\<open>None\<close> means that
  the call returns.
\<close>

record library =
  newDefaultAzureCredential :: "raw_error option"
  getBearerTokenProvider :: "string \<Rightarrow> raw_error option"
  newAzureOpenAI :: "azure_client \<Rightarrow> raw_error option"

text \<open>
  The body of the \<open>try\<close> block: the client, or the value that the \<open>catch\<close> clause
  receives. In the Azure Identity branch the arguments are evaluated in the order of the
  source: the credential, then \<open>getAudienceScope\<close> (which throws an \<open>Error\<close> without
  status), then the token provider, then the client.
\<close>

definition construct_client :: "library \<Rightarrow> handler_options \<Rightarrow> raw_error + azure_client" where
  "construct_client lib opts =
     (if truthy_bool (microsoftFoundryUseIdentity opts) then
        (case newDefaultAzureCredential lib of
           Some err \<Rightarrow> Inl err
         | None \<Rightarrow>
             (case getAudienceScope opts of
                Inl thrown \<Rightarrow> Inl \<lparr>message = thrown, status = None, statusCode = None\<rparr>
              | Inr scope \<Rightarrow>
                  (case getBearerTokenProvider lib scope of
                     Some err \<Rightarrow> Inl err
                   | None \<Rightarrow>
                       let c = \<lparr>client_endpoint = value_of (microsoftFoundryEndpoint opts),
                                client_credentials = AzureADTokenProvider scope,
                                client_apiVersion = getApiVersion opts\<rparr>
                       in (case newAzureOpenAI lib c of
                             Some err \<Rightarrow> Inl err
                           | None \<Rightarrow> Inr c))))
      else
        let c = \<lparr>client_endpoint = value_of (microsoftFoundryEndpoint opts),
                 client_credentials = ApiKey (value_of (microsoftFoundryApiKey opts)),
                 client_apiVersion = getApiVersion opts\<rparr>
        in (case newAzureOpenAI lib c of
              Some err \<Rightarrow> Inl err
            | None \<Rightarrow> Inr c))"

text \<open>
  \<open>ensureClient\<close> returns the client or the message of the error it throws, and the
  handler with its \<open>client\<close> field as the call leaves it. Whatever the \<open>try\<close> block
  throws is rethrown with the text that \<open>getDetailedErrorMessage\<close> gives it.
\<close>

definition ensureClient :: "library \<Rightarrow> handler \<Rightarrow> (string + azure_client) \<times> handler" where
  "ensureClient lib h =
     (case client h of
        Some c \<Rightarrow> (Inr c, h)
      | None \<Rightarrow>
          let opts = options h in
          if \<not> truthy_str (microsoftFoundryEndpoint opts) then (Inl msg_endpoint_required, h)
          else if \<not> truthy_str (microsoftFoundryApiKey opts) \<and>
                  \<not> truthy_bool (microsoftFoundryUseIdentity opts)
          then (Inl msg_auth_required, h)
          else
            (case construct_client lib opts of
               Inl err \<Rightarrow> (Inl (getDetailedErrorMessage opts err), h)
             | Inr c \<Rightarrow> (Inr c, h\<lparr>client := Some c\<rparr>)))"

section \<open>The request\<close>

text \<open>
  A property of the object passed to \<open>client.chat.completions.create\<close>: the key can be
  missing, present with the value \<open>undefined\<close>, or present with a value. The JSON body
  of the HTTP request has the key in the last case only (\<open>JSON.stringify\<close> leaves out
  a key whose value is \<open>undefined\<close>).
\<close>

datatype 'a property = Absent | Undefined | Present 'a

definition sent :: "'a property \<Rightarrow> 'a option" where
  "sent p = (case p of Present v \<Rightarrow> Some v | Undefined \<Rightarrow> None | Absent \<Rightarrow> None)"

text \<open>
  The first message is written by \<open>createMessage\<close>; the others are what
  \<open>convertToOpenAiMessages(messages)\<close> returns. That function and
  \<open>getOpenAIToolParams\<close> are not among the sources: their results are parameters
  (\<open>converted\<close>, \<open>toolParams\<close>), the latter standing for the tool keys it spreads
  into the request.
\<close>

datatype 'm chat_message = RoleContent string string | Converted 'm

record ('m, 't) completion_params =
  model :: string
  messages :: "'m chat_message list"
  temperature :: "rat property"
  reasoning_effort :: "string property"
  stream :: bool
  include_usage :: bool
  tool_params :: 't

definition isReasoningModel :: "model_info \<Rightarrow> string \<Rightarrow> bool" where
  "isReasoningModel modelInfo deploymentLower =
     (truthy_bool (supportsReasoning modelInfo) \<or>
      (list_ex (\<lambda>prefix. str_includes deploymentLower prefix) [''o1'', ''o3'', ''o4''] \<and>
       \<not> str_includes deploymentLower ''chat''))"

definition noTemperatureSupport :: "model_info \<Rightarrow> string \<Rightarrow> bool" where
  "noTemperatureSupport modelInfo deploymentLower =
     (str_includes deploymentLower ''gpt-5'' \<or> str_includes deploymentLower ''gpt5'' \<or>
      isReasoningModel modelInfo deploymentLower)"

text \<open>The capability record \<open>createMessage\<close> and \<open>getModel\<close> work with.\<close>

definition model_info_of :: "handler_options \<Rightarrow> string \<Rightarrow> model_info" where
  "model_info_of opts deploymentId =
     (case microsoftFoundryModelInfo opts of
        Some info \<Rightarrow> info
      | None \<Rightarrow> getModelCapabilities deploymentId)"

text \<open>
  The argument of \<open>client.chat.completions.create\<close>, as \<open>createMessage\<close> builds it for
  a deployment identifier that passed the \<open>!deploymentId\<close> test.
\<close>

definition request_params ::
  "handler_options \<Rightarrow> string \<Rightarrow> string \<Rightarrow> 'm list \<Rightarrow> 't \<Rightarrow> ('m, 't) completion_params" where
  "request_params opts deploymentId systemPrompt converted toolParams =
     (let deploymentLower = toLowerCase deploymentId;
          modelInfo = model_info_of opts deploymentId;
          reasoning = isReasoningModel modelInfo deploymentLower
      in \<lparr>model = deploymentId,
          messages =
            (if reasoning then RoleContent ''developer'' systemPrompt # map Converted converted
             else RoleContent ''system'' systemPrompt # map Converted converted),
          temperature =
            (if noTemperatureSupport modelInfo deploymentLower then Undefined
             else Present (7 / 10)),
          reasoning_effort =
            (if reasoning
             then Present (if truthy_str (reasoningEffort opts)
                           then value_of (reasoningEffort opts) else ''medium'')
             else Absent),
          stream = True,
          include_usage = True,
          tool_params = toolParams\<rparr>)"

section \<open>The response stream\<close>

text \<open>
  A chunk of the provider's stream, as far as the loop reads it. \<open>choices\<close> may be
  missing, and so may the \<open>delta\<close> of a choice; \<open>cached_tokens\<close> is
  \<open>usage.prompt_tokens_details?.cached_tokens\<close>. The elements of \<open>tool_calls\<close> are
  only handed on to the tool-call processor, so their type is a parameter.
\<close>

record 'f delta =
  content :: "string option"
  reasoning_content :: "string option"
  tool_calls :: "'f list option"

record usage_block =
  prompt_tokens :: "nat option"
  completion_tokens :: "nat option"
  cached_tokens :: "nat option"

record 'f chunk =
  choices :: "'f delta option list option"
  usage :: "usage_block option"

text \<open>\<open>chunk.choices?.[0]?.delta\<close>\<close>

definition first_delta :: "'f chunk \<Rightarrow> 'f delta option" where
  "first_delta c =
     (case choices c of None \<Rightarrow> None | Some [] \<Rightarrow> None | Some (d # _) \<Rightarrow> d)"

text \<open>\<open>n || 0\<close> for an optional number.\<close>

definition or_zero :: "nat option \<Rightarrow> nat" where
  "or_zero v = (case v of Some n \<Rightarrow> n | None \<Rightarrow> 0)"

text \<open>
  What \<open>createMessage\<close> yields: \<open>Usage\<close> carries \<open>inputTokens\<close>, \<open>outputTokens\<close>,
  \<open>cacheReadTokens\<close> and \<open>cacheWriteTokens\<close>; \<open>ToolCalls\<close> wraps what the tool-call
  processor yields.
\<close>

datatype 'tc api_stream_chunk =
  Text string
| Reasoning string
| ToolCalls 'tc
| Usage nat nat nat nat

definition usage_event :: "usage_block \<Rightarrow> 'tc api_stream_chunk" where
  "usage_event u =
     Usage (or_zero (prompt_tokens u)) (or_zero (completion_tokens u))
           (or_zero (cached_tokens u)) 0"

text \<open>
  The tool-call processor is a state (\<open>new ToolCallProcessor()\<close>) and a step
  \<open>processToolCallDeltas\<close> that, given the fragments of one chunk, yields events and
  updates the state. The class is not among the sources, so the loop takes both as
  parameters \<open>proc\<close> and \<open>st\<close>.
\<close>

type_synonym ('st, 'f, 'tc) processor = "'st \<Rightarrow> 'f list \<Rightarrow> 'tc list \<times> 'st"

text \<open>The body of the \<open>for await\<close> loop, for one chunk.\<close>

definition process_chunk ::
  "('st, 'f, 'tc) processor \<Rightarrow> 'st \<Rightarrow> 'f chunk \<Rightarrow> 'tc api_stream_chunk list \<times> 'st" where
  "process_chunk proc st c =
     (let d = first_delta c;
          text_events =
            (case d of None \<Rightarrow> []
             | Some dl \<Rightarrow> if truthy_str (content dl) then [Text (value_of (content dl))] else []);
          reasoning_events =
            (case d of None \<Rightarrow> []
             | Some dl \<Rightarrow> if truthy_str (reasoning_content dl)
                          then [Reasoning (value_of (reasoning_content dl))] else []);
          (tool_events, st') =
            (case d of None \<Rightarrow> ([], st)
             | Some dl \<Rightarrow> (case tool_calls dl of None \<Rightarrow> ([], st) | Some fs \<Rightarrow> proc st fs));
          usage_events = (case usage c of None \<Rightarrow> [] | Some u \<Rightarrow> [usage_event u])
      in (text_events @ reasoning_events @ map ToolCalls tool_events @ usage_events, st'))"

text \<open>The loop over the chunks that arrive; nothing follows it in the \<open>try\<close> block.\<close>

fun for_await ::
  "('st, 'f, 'tc) processor \<Rightarrow> 'st \<Rightarrow> 'f chunk list \<Rightarrow> 'tc api_stream_chunk list \<times> 'st" where
  "for_await proc st [] = ([], st)"
| "for_await proc st (c # cs) =
     (let (evs, st') = process_chunk proc st c;
          (rest, st'') = for_await proc st' cs
      in (evs @ rest, st''))"

text \<open>
  What the provider does with a request: \<open>create\<close> rejects, or resolves to a stream that
  delivers finitely many chunks and then either closes or throws.
\<close>

datatype 'f response = Rejected raw_error | Streaming "'f chunk list" "raw_error option"

text \<open>
  What a consumer that drains \<open>createMessage\<close> observes: the events yielded, the message
  of the error thrown at the end (if any), and the requests issued to the provider.
\<close>

record ('m, 't, 'tc) outcome =
  events :: "'tc api_stream_chunk list"
  failure :: "string option"
  requests :: "('m, 't) completion_params list"

definition msg_no_deployment :: string where
  "msg_no_deployment =
     ''No deployment selected. Please select a deployment from the Microsoft Foundry provider settings.''"

text \<open>
  The generator body of \<open>createMessage\<close>, drained to its end. The \<open>withRetry\<close>
  decorator (in \<open>../retry\<close>) is not among the sources and not part of the model.
\<close>

definition createMessage ::
  "library \<Rightarrow> handler \<Rightarrow> string \<Rightarrow> 'm list \<Rightarrow> 't \<Rightarrow> ('st, 'f, 'tc) processor \<Rightarrow> 'st \<Rightarrow>
   (azure_client \<Rightarrow> ('m, 't) completion_params \<Rightarrow> 'f response) \<Rightarrow>
   ('m, 't, 'tc) outcome \<times> handler" where
  "createMessage lib h systemPrompt converted toolParams proc st0 create =
     (case ensureClient lib h of
        (Inl thrown, h') \<Rightarrow> (\<lparr>events = [], failure = Some thrown, requests = []\<rparr>, h')
      | (Inr c, h') \<Rightarrow>
          let opts = options h';
              deploymentId = microsoftFoundryDeploymentId opts
          in if \<not> truthy_str deploymentId
             then (\<lparr>events = [], failure = Some msg_no_deployment, requests = []\<rparr>, h')
             else
               let req = request_params opts (value_of deploymentId) systemPrompt converted
                           toolParams
               in (case create c req of
                     Rejected err \<Rightarrow>
                       (\<lparr>events = [], failure = Some (getDetailedErrorMessage opts err),
                         requests = [req]\<rparr>, h')
                   | Streaming chunks thrown \<Rightarrow>
                       (\<lparr>events = fst (for_await proc st0 chunks),
                         failure = map_option (getDetailedErrorMessage opts) thrown,
                         requests = [req]\<rparr>, h')))"

text \<open>\<open>getModel\<close>\<close>

definition getModel :: "handler \<Rightarrow> string \<times> model_info" where
  "getModel h =
     (let deploymentId = (case microsoftFoundryDeploymentId (options h) of
                            Some d \<Rightarrow> d | None \<Rightarrow> [])
      in (deploymentId, model_info_of (options h) deploymentId))"

section \<open>The tool-call reassembler\<close>

text \<open>
  Modelled from the spec: the Tool-Call Reassembler, which is the class
  \<open>ToolCallProcessor\<close> of \<open>../transform/tool-call-processor\<close> and is not among the
  sources. Sections 3 and 4.5 give it one accumulator per tool-call index, holding the
  identifier, the name and the argument buffer; a fragment of an unseen index opens an
  accumulator, its identifier and name fragments are recorded verbatim and its argument
  fragment is appended; a fragment of a new distinct index closes the accumulators of the
  other indices, each with one \<open>ToolCallComplete\<close> that carries the accumulated argument
  string (parsed or, when it does not parse, raw: the model keeps the string); a fragment
  of an index that is already complete is logged and not applied.
\<close>

record fragment =
  tc_index :: nat
  idFragment :: "string option"
  nameFragment :: "string option"
  argumentFragment :: "string option"

datatype tool_call_event =
  ToolCallDelta nat "string option" "string option" "string option"
| ToolCallComplete string string string

record pending_tool_call =
  pending_id :: string
  pending_name :: string
  argumentBuffer :: string

record reassembler =
  accumulating :: "(nat \<times> pending_tool_call) list"
  completed :: "nat list"

definition new_reassembler :: reassembler where
  "new_reassembler = \<lparr>accumulating = [], completed = []\<rparr>"

definition close_event :: "pending_tool_call \<Rightarrow> tool_call_event" where
  "close_event p = ToolCallComplete (pending_id p) (pending_name p) (argumentBuffer p)"

definition accept_fragment :: "reassembler \<Rightarrow> fragment \<Rightarrow> tool_call_event list \<times> reassembler" where
  "accept_fragment r f =
     (if tc_index f \<in> set (completed r) then ([], r)
      else
        let closing = filter (\<lambda>(i, p). i \<noteq> tc_index f) (accumulating r);
            cur = (case map_of (accumulating r) (tc_index f) of
                     Some p \<Rightarrow> p
                   | None \<Rightarrow> \<lparr>pending_id = [], pending_name = [], argumentBuffer = []\<rparr>);
            cur' = \<lparr>pending_id = pending_id cur @ value_of (idFragment f),
                    pending_name = pending_name cur @ value_of (nameFragment f),
                    argumentBuffer = argumentBuffer cur @ value_of (argumentFragment f)\<rparr>
        in (map (\<lambda>(i, p). close_event p) closing @
              [ToolCallDelta (tc_index f) (idFragment f) (nameFragment f) (argumentFragment f)],
            \<lparr>accumulating = [(tc_index f, cur')],
             completed = completed r @ map fst closing\<rparr>))"

fun processToolCallDeltas :: "(reassembler, fragment, tool_call_event) processor" where
  "processToolCallDeltas r [] = ([], r)"
| "processToolCallDeltas r (f # fs) =
     (let (evs, r') = accept_fragment r f;
          (rest, r'') = processToolCallDeltas r' fs
      in (evs @ rest, r''))"

section \<open>Notions the properties are stated with\<close>

text \<open>
  The longest table key that a name starts with: the resolution rule in the words of the
  specification, to compare \<^const>\<open>first_prefix_match\<close> with.
\<close>

fun longest_prefix_match :: "(string \<times> model_info) list \<Rightarrow> string \<Rightarrow> (string \<times> model_info) option" where
  "longest_prefix_match [] modelName = None"
| "longest_prefix_match ((prefix, capabilities) # rest) modelName =
     (case longest_prefix_match rest modelName of
        None \<Rightarrow> if startsWith modelName prefix then Some (prefix, capabilities) else None
      | Some (p, c) \<Rightarrow>
          if startsWith modelName prefix \<and> length p < length prefix
          then Some (prefix, capabilities) else Some (p, c))"

text \<open>
  Reasoning class in the words of the specification: the capability record declares
  reasoning support, or the identifier starts with one of the family prefixes and has no
  \<open>chat\<close> in it.
\<close>

definition reasoning_class_by_prefix :: "model_info \<Rightarrow> string \<Rightarrow> bool" where
  "reasoning_class_by_prefix modelInfo deploymentId =
     (truthy_bool (supportsReasoning modelInfo) \<or>
      (list_ex (\<lambda>prefix. startsWith deploymentId prefix) [''o1'', ''o3'', ''o4''] \<and>
       \<not> str_includes deploymentId ''chat''))"

text \<open>A chunk in which the loop finds neither a delta nor a usage block.\<close>

definition unrecognized_shape :: "'f chunk \<Rightarrow> bool" where
  "unrecognized_shape c = (first_delta c = None \<and> usage c = None)"

definition is_usage :: "'tc api_stream_chunk \<Rightarrow> bool" where
  "is_usage e = (case e of Usage i out r w \<Rightarrow> True | _ \<Rightarrow> False)"

text \<open>
  \<open>getAudienceScope\<close> throws exactly for the Stack environment without a custom scope and
  with an endpoint that names neither public cloud.
\<close>

definition stack_scope_missing :: "handler_options \<Rightarrow> bool" where
  "stack_scope_missing opts =
     (microsoftFoundryCloudEnvironment opts = Some Stack \<and>
      \<not> truthy_str (microsoftFoundryCustomScope opts) \<and>
      \<not> str_includes (toLowerCase (value_of (microsoftFoundryEndpoint opts))) ''azure.us'' \<and>
      \<not> str_includes (toLowerCase (value_of (microsoftFoundryEndpoint opts))) ''azure.com'')"

text \<open>
  Handlers as the tests of the repository build them: an endpoint, an API key, a
  deployment, optionally a capability record and a reasoning-effort hint; and one that
  uses Azure Identity in a given cloud environment.
\<close>

definition key_handler :: "string option \<Rightarrow> model_info option \<Rightarrow> string option \<Rightarrow> handler" where
  "key_handler deploymentId modelInfo effort =
     \<lparr>options =
        \<lparr>microsoftFoundryEndpoint = Some ''https://example.com'',
         microsoftFoundryApiKey = Some ''test-key'',
         microsoftFoundryDeploymentId = deploymentId,
         microsoftFoundryCloudEnvironment = None,
         microsoftFoundryUseIdentity = None,
         microsoftFoundryCustomScope = None,
         microsoftFoundryApiVersion = None,
         microsoftFoundryModelInfo = modelInfo,
         reasoningEffort = effort\<rparr>,
      client = None\<rparr>"

definition identity_handler :: "string \<Rightarrow> cloud_environment \<Rightarrow> string option \<Rightarrow> handler" where
  "identity_handler endpoint env scope =
     \<lparr>options =
        \<lparr>microsoftFoundryEndpoint = Some endpoint,
         microsoftFoundryApiKey = None,
         microsoftFoundryDeploymentId = Some ''gpt-4o'',
         microsoftFoundryCloudEnvironment = Some env,
         microsoftFoundryUseIdentity = Some True,
         microsoftFoundryCustomScope = scope,
         microsoftFoundryApiVersion = None,
         microsoftFoundryModelInfo = None,
         reasoningEffort = None\<rparr>,
      client = None\<rparr>"

text \<open>Libraries in which no call throws.\<close>

definition no_throw :: library where
  "no_throw =
     \<lparr>newDefaultAzureCredential = None,
      getBearerTokenProvider = (\<lambda>scope. None),
      newAzureOpenAI = (\<lambda>c. None)\<rparr>"

text \<open>Chunks of a stream: a text delta, tool-call fragments, a usage block, and an empty object.\<close>

definition text_chunk :: "string \<Rightarrow> 'f chunk" where
  "text_chunk s =
     \<lparr>choices = Some [Some \<lparr>content = Some s, reasoning_content = None, tool_calls = None\<rparr>],
      usage = None\<rparr>"

definition tool_chunk :: "'f list \<Rightarrow> 'f chunk" where
  "tool_chunk fs =
     \<lparr>choices = Some [Some \<lparr>content = None, reasoning_content = None, tool_calls = Some fs\<rparr>],
      usage = None\<rparr>"

definition usage_chunk :: "nat \<Rightarrow> nat \<Rightarrow> 'f chunk" where
  "usage_chunk p c =
     \<lparr>choices = Some [],
      usage = Some \<lparr>prompt_tokens = Some p, completion_tokens = Some c, cached_tokens = None\<rparr>\<rparr>"

definition empty_chunk :: "'f chunk" where
  "empty_chunk = \<lparr>choices = None, usage = None\<rparr>"

text \<open>
  A tool-call processor without state that yields every fragment as it is, for streams in
  which tool calls play no part.
\<close>

definition pass_through :: "(unit, unit, unit) processor" where
  "pass_through st fs = (fs, st)"

section \<open>Strings and table lookup: basic facts\<close>

lemma startsWith_iff: "startsWith s p \<longleftrightarrow> (\<exists>t. s = p @ t)"
  by (induction s p rule: startsWith.induct) auto

lemma first_prefix_match_None:
  "first_prefix_match table n = None \<longleftrightarrow> list_all (\<lambda>(p, c). \<not> startsWith n p) table"
  by (induction table n rule: first_prefix_match.induct) auto

lemma first_prefix_match_Some:
  "first_prefix_match table n = Some (p, c) \<Longrightarrow> (p, c) \<in> set table \<and> startsWith n p"
  by (induction table n rule: first_prefix_match.induct) (auto split: if_splits)

lemma prototype_keys_foundry:
  "list_all (\<lambda>k. map_of FOUNDRY_MODEL_CAPABILITIES k = None \<and>
                 first_prefix_match FOUNDRY_MODEL_CAPABILITIES k = None) object_prototype_keys"
  by (simp add: FOUNDRY_MODEL_CAPABILITIES_def object_prototype_keys_def)

lemma prototype_keys_ui:
  "list_all (\<lambda>k. map_of MODEL_CAPABILITIES k = None \<and>
                 first_prefix_match MODEL_CAPABILITIES k = None) object_prototype_keys"
  by (simp add: MODEL_CAPABILITIES_def object_prototype_keys_def)

lemma resolve_in_exact:
  "map_of table n = Some c \<Longrightarrow> resolve_in table dflt n = spread dflt c"
  by (simp add: resolve_in_def)

lemma resolve_in_prefix:
  assumes "map_of table n = None" and "first_prefix_match table n = Some (p, c)"
    and "list_all (\<lambda>k. first_prefix_match table k = None) object_prototype_keys"
  shows "resolve_in table dflt n = spread dflt c"
proof -
  have "n \<notin> set object_prototype_keys"
    using assms(2,3) by (auto simp: list_all_iff)
  then show ?thesis using assms(1,2) by (simp add: resolve_in_def)
qed

lemma resolve_in_unknown:
  assumes "list_all (\<lambda>(p, c). \<not> startsWith n p) table"
  shows "resolve_in table dflt n = dflt"
proof -
  have none: "first_prefix_match table n = None"
    using assms by (simp add: first_prefix_match_None)
  have "map_of table n = None"
  proof (rule ccontr)
    assume "map_of table n \<noteq> None"
    then obtain c where "map_of table n = Some c" by blast
    then have "(n, c) \<in> set table" by (rule map_of_SomeD)
    with assms have "\<not> startsWith n n" by (auto simp: list_all_iff)
    then show False by (simp add: startsWith_iff)
  qed
  with none show ?thesis by (simp add: resolve_in_def)
qed

section \<open>Capability resolution\<close>

text \<open>
  Claim C8. Capability resolution never fails: every name falls under one of three cases,
  and each case fixes the record returned. For a name that is a key of the table, it is
  that key's record merged over the default record: each value the table record has, and
  the default's value for each key it lacks. For a name that is no key but extends some
  key, it is the record of such a key (the first one in table order), merged over the
  default in the same way. For a name that extends no key, it is the default record
  itself: 4096 output tokens, a context window of 128000, no images, no prompt cache, no
  reasoning, and price zero (the copy of the settings component has no prices). This
  holds for the provider's table and for the copy in the settings component.
\<close>

theorem getModelCapabilities_total:
  "let merged = (\<lambda>d c.
         \<lparr>maxTokens = (case maxTokens c of Some v \<Rightarrow> Some v | None \<Rightarrow> maxTokens d),
          contextWindow = (case contextWindow c of Some v \<Rightarrow> Some v | None \<Rightarrow> contextWindow d),
          supportsImages = (case supportsImages c of Some v \<Rightarrow> Some v | None \<Rightarrow> supportsImages d),
          supportsPromptCache =
            (case supportsPromptCache c of Some v \<Rightarrow> Some v | None \<Rightarrow> supportsPromptCache d),
          supportsReasoning =
            (case supportsReasoning c of Some v \<Rightarrow> Some v | None \<Rightarrow> supportsReasoning d),
          inputPrice = (case inputPrice c of Some v \<Rightarrow> Some v | None \<Rightarrow> inputPrice d),
          outputPrice = (case outputPrice c of Some v \<Rightarrow> Some v | None \<Rightarrow> outputPrice d)\<rparr>);
       dflt = \<lparr>maxTokens = Some 4096, contextWindow = Some 128000, supportsImages = Some False,
               supportsPromptCache = Some False, supportsReasoning = None,
               inputPrice = Some 0, outputPrice = Some 0\<rparr>;
       dflt_ui = \<lparr>maxTokens = Some 4096, contextWindow = Some 128000, supportsImages = Some False,
                  supportsPromptCache = Some False, supportsReasoning = None,
                  inputPrice = None, outputPrice = None\<rparr>
   in
   ((\<exists>c. map_of FOUNDRY_MODEL_CAPABILITIES n = Some c) \<or>
    (map_of FOUNDRY_MODEL_CAPABILITIES n = None \<and>
     (\<exists>p c. first_prefix_match FOUNDRY_MODEL_CAPABILITIES n = Some (p, c))) \<or>
    list_all (\<lambda>(p, c). \<not> (\<exists>t. n = p @ t)) FOUNDRY_MODEL_CAPABILITIES) \<and>
   (\<forall>c. map_of FOUNDRY_MODEL_CAPABILITIES n = Some c \<longrightarrow>
        getModelCapabilities n = merged dflt c) \<and>
   (\<forall>p c. map_of FOUNDRY_MODEL_CAPABILITIES n = None \<and>
          first_prefix_match FOUNDRY_MODEL_CAPABILITIES n = Some (p, c) \<longrightarrow>
          (p, c) \<in> set FOUNDRY_MODEL_CAPABILITIES \<and> (\<exists>t. n = p @ t) \<and>
          getModelCapabilities n = merged dflt c) \<and>
   (list_all (\<lambda>(p, c). \<not> (\<exists>t. n = p @ t)) FOUNDRY_MODEL_CAPABILITIES \<longrightarrow>
      getModelCapabilities n = dflt) \<and>
   ((\<exists>c. map_of MODEL_CAPABILITIES n = Some c) \<or>
    (map_of MODEL_CAPABILITIES n = None \<and>
     (\<exists>p c. first_prefix_match MODEL_CAPABILITIES n = Some (p, c))) \<or>
    list_all (\<lambda>(p, c). \<not> (\<exists>t. n = p @ t)) MODEL_CAPABILITIES) \<and>
   (\<forall>c. map_of MODEL_CAPABILITIES n = Some c \<longrightarrow>
        getModelCapabilities_ui n = merged dflt_ui c) \<and>
   (\<forall>p c. map_of MODEL_CAPABILITIES n = None \<and>
          first_prefix_match MODEL_CAPABILITIES n = Some (p, c) \<longrightarrow>
          (p, c) \<in> set MODEL_CAPABILITIES \<and> (\<exists>t. n = p @ t) \<and>
          getModelCapabilities_ui n = merged dflt_ui c) \<and>
   (list_all (\<lambda>(p, c). \<not> (\<exists>t. n = p @ t)) MODEL_CAPABILITIES \<longrightarrow>
      getModelCapabilities_ui n = dflt_ui)"
proof -
  have sw: "(\<lambda>(p, c). \<not> (\<exists>t. n = p @ t)) = (\<lambda>(p, c :: model_info). \<not> startsWith n p)"
    by (simp add: startsWith_iff)
  have pf: "list_all (\<lambda>k. first_prefix_match FOUNDRY_MODEL_CAPABILITIES k = None)
              object_prototype_keys"
    using prototype_keys_foundry by (simp add: list_all_iff)
  have pu: "list_all (\<lambda>k. first_prefix_match MODEL_CAPABILITIES k = None) object_prototype_keys"
    using prototype_keys_ui by (simp add: list_all_iff)
  have ex: "(\<exists>c. map_of table n = Some c) \<or>
            (map_of table n = None \<and> (\<exists>p c. first_prefix_match table n = Some (p, c))) \<or>
            list_all (\<lambda>(p, c). \<not> startsWith n p) table" for table
    using first_prefix_match_None [of table n]
    by (cases "map_of table n"; cases "first_prefix_match table n") auto
  have f1: "map_of FOUNDRY_MODEL_CAPABILITIES n = Some c \<Longrightarrow>
            getModelCapabilities n = spread DEFAULT_MODEL_INFO c" for c
    by (simp add: getModelCapabilities_def resolve_in_exact)
  have f2: "map_of FOUNDRY_MODEL_CAPABILITIES n = None \<Longrightarrow>
            first_prefix_match FOUNDRY_MODEL_CAPABILITIES n = Some (p, c) \<Longrightarrow>
            (p, c) \<in> set FOUNDRY_MODEL_CAPABILITIES \<and> (\<exists>t. n = p @ t) \<and>
            getModelCapabilities n = spread DEFAULT_MODEL_INFO c" for p c
    using resolve_in_prefix [OF _ _ pf] first_prefix_match_Some startsWith_iff
    unfolding getModelCapabilities_def by blast
  have f3: "list_all (\<lambda>(p, c). \<not> startsWith n p) FOUNDRY_MODEL_CAPABILITIES \<Longrightarrow>
            getModelCapabilities n = DEFAULT_MODEL_INFO"
    by (simp add: getModelCapabilities_def resolve_in_unknown)
  have u1: "map_of MODEL_CAPABILITIES n = Some c \<Longrightarrow>
            getModelCapabilities_ui n = spread DEFAULT_MODEL_INFO_ui c" for c
    by (simp add: getModelCapabilities_ui_def resolve_in_exact)
  have u2: "map_of MODEL_CAPABILITIES n = None \<Longrightarrow>
            first_prefix_match MODEL_CAPABILITIES n = Some (p, c) \<Longrightarrow>
            (p, c) \<in> set MODEL_CAPABILITIES \<and> (\<exists>t. n = p @ t) \<and>
            getModelCapabilities_ui n = spread DEFAULT_MODEL_INFO_ui c" for p c
    using resolve_in_prefix [OF _ _ pu] first_prefix_match_Some startsWith_iff
    unfolding getModelCapabilities_ui_def by blast
  have u3: "list_all (\<lambda>(p, c). \<not> startsWith n p) MODEL_CAPABILITIES \<Longrightarrow>
            getModelCapabilities_ui n = DEFAULT_MODEL_INFO_ui"
    by (simp add: getModelCapabilities_ui_def resolve_in_unknown)
  have sp: "spread d c =
         \<lparr>maxTokens = (case maxTokens c of Some v \<Rightarrow> Some v | None \<Rightarrow> maxTokens d),
          contextWindow = (case contextWindow c of Some v \<Rightarrow> Some v | None \<Rightarrow> contextWindow d),
          supportsImages = (case supportsImages c of Some v \<Rightarrow> Some v | None \<Rightarrow> supportsImages d),
          supportsPromptCache =
            (case supportsPromptCache c of Some v \<Rightarrow> Some v | None \<Rightarrow> supportsPromptCache d),
          supportsReasoning =
            (case supportsReasoning c of Some v \<Rightarrow> Some v | None \<Rightarrow> supportsReasoning d),
          inputPrice = (case inputPrice c of Some v \<Rightarrow> Some v | None \<Rightarrow> inputPrice d),
          outputPrice = (case outputPrice c of Some v \<Rightarrow> Some v | None \<Rightarrow> outputPrice d)\<rparr>"
    for d c
    by (simp add: spread_def over_def)
  show ?thesis
    unfolding Let_def sw
    using ex [of FOUNDRY_MODEL_CAPABILITIES] ex [of MODEL_CAPABILITIES] f1 f2 f3 u1 u2 u3
    unfolding sp DEFAULT_MODEL_INFO_def DEFAULT_MODEL_INFO_ui_def sw
    by blast
qed

theorem getModelCapabilities_total_witness:
  "map_of FOUNDRY_MODEL_CAPABILITIES ''gpt-4o'' =
     Some \<lparr>maxTokens = Some 16384, contextWindow = Some 128000, supportsImages = Some True,
           supportsPromptCache = Some False, supportsReasoning = None,
           inputPrice = Some 2.5, outputPrice = Some 10\<rparr> \<and>
   getModelCapabilities ''gpt-4o'' =
     \<lparr>maxTokens = Some 16384, contextWindow = Some 128000, supportsImages = Some True,
      supportsPromptCache = Some False, supportsReasoning = None,
      inputPrice = Some 2.5, outputPrice = Some 10\<rparr> \<and>
   map_of FOUNDRY_MODEL_CAPABILITIES ''gpt-4o-2024-08-06'' = None \<and>
   first_prefix_match FOUNDRY_MODEL_CAPABILITIES ''gpt-4o-2024-08-06'' =
     Some (''gpt-4o'',
           \<lparr>maxTokens = Some 16384, contextWindow = Some 128000, supportsImages = Some True,
            supportsPromptCache = Some False, supportsReasoning = None,
            inputPrice = Some 2.5, outputPrice = Some 10\<rparr>) \<and>
   getModelCapabilities ''gpt-4o-2024-08-06'' =
     \<lparr>maxTokens = Some 16384, contextWindow = Some 128000, supportsImages = Some True,
      supportsPromptCache = Some False, supportsReasoning = None,
      inputPrice = Some 2.5, outputPrice = Some 10\<rparr> \<and>
   list_all (\<lambda>(p, c). \<not> (\<exists>t. ''my-custom-model'' = p @ t)) FOUNDRY_MODEL_CAPABILITIES \<and>
   getModelCapabilities ''my-custom-model'' =
     \<lparr>maxTokens = Some 4096, contextWindow = Some 128000, supportsImages = Some False,
      supportsPromptCache = Some False, supportsReasoning = None,
      inputPrice = Some 0, outputPrice = Some 0\<rparr> \<and>
   map_of MODEL_CAPABILITIES ''o3'' =
     Some \<lparr>maxTokens = Some 100000, contextWindow = Some 200000, supportsImages = Some True,
           supportsPromptCache = Some False, supportsReasoning = Some True,
           inputPrice = None, outputPrice = None\<rparr> \<and>
   getModelCapabilities_ui ''o3'' =
     \<lparr>maxTokens = Some 100000, contextWindow = Some 200000, supportsImages = Some True,
      supportsPromptCache = Some False, supportsReasoning = Some True,
      inputPrice = None, outputPrice = None\<rparr> \<and>
   getModelCapabilities_ui ''toString'' =
     \<lparr>maxTokens = Some 4096, contextWindow = Some 128000, supportsImages = Some False,
      supportsPromptCache = Some False, supportsReasoning = None,
      inputPrice = None, outputPrice = None\<rparr>"
proof -
  let ?gpt4o = "\<lparr>maxTokens = Some 16384, contextWindow = Some 128000, supportsImages = Some True,
      supportsPromptCache = Some False, supportsReasoning = None,
      inputPrice = Some 2.5, outputPrice = Some 10\<rparr>"
  let ?o3 = "\<lparr>maxTokens = Some 100000, contextWindow = Some 200000, supportsImages = Some True,
      supportsPromptCache = Some False, supportsReasoning = Some True,
      inputPrice = None, outputPrice = None\<rparr>"
  have a: "map_of FOUNDRY_MODEL_CAPABILITIES ''gpt-4o'' = Some ?gpt4o"
    by (simp add: FOUNDRY_MODEL_CAPABILITIES_def caps_def)
  have b: "map_of FOUNDRY_MODEL_CAPABILITIES ''gpt-4o-2024-08-06'' = None \<and>
     first_prefix_match FOUNDRY_MODEL_CAPABILITIES ''gpt-4o-2024-08-06'' = Some (''gpt-4o'', ?gpt4o)"
    by (simp add: FOUNDRY_MODEL_CAPABILITIES_def caps_def)
  have c: "list_all (\<lambda>(p, c). \<not> (\<exists>t. ''my-custom-model'' = p @ t)) FOUNDRY_MODEL_CAPABILITIES"
    unfolding startsWith_iff [symmetric] by (simp add: FOUNDRY_MODEL_CAPABILITIES_def)
  have d: "map_of MODEL_CAPABILITIES ''o3'' = Some ?o3"
    by (simp add: MODEL_CAPABILITIES_def caps_def)
  have e: "list_all (\<lambda>(p, c). \<not> (\<exists>t. ''toString'' = p @ t)) MODEL_CAPABILITIES"
    unfolding startsWith_iff [symmetric] by (simp add: MODEL_CAPABILITIES_def)
  show ?thesis
    using a b c d e
      getModelCapabilities_total [of "''gpt-4o''"]
      getModelCapabilities_total [of "''gpt-4o-2024-08-06''"]
      getModelCapabilities_total [of "''my-custom-model''"]
      getModelCapabilities_total [of "''o3''"]
      getModelCapabilities_total [of "''toString''"]
    by (simp add: Let_def)
qed

text \<open>
  Claim C7 asks for the longest matching key: a name that extends \<open>o1-mini\<close> should get
  the \<open>o1-mini\<close> record. The loop returns at the first key in table order that the name
  starts with, and in the provider's table \<open>o1\<close> stands before \<open>o1-mini\<close>: the name
  \<open>o1-mini-2024-09-12\<close> gets the \<open>o1\<close> record, with other limits than \<open>o1-mini\<close>. In
  the same way \<open>gpt-4.1-2025-04-14\<close> gets the \<open>gpt-4\<close> record from the provider's
  table, while the settings component, whose table lists \<open>gpt-4.1\<close> before \<open>gpt-4\<close>,
  gives it the \<open>gpt-4.1\<close> record.
\<close>

theorem getModelCapabilities_first_match_not_longest:
  "map_of FOUNDRY_MODEL_CAPABILITIES ''o1-mini-2024-09-12'' = None \<and>
   longest_prefix_match FOUNDRY_MODEL_CAPABILITIES ''o1-mini-2024-09-12'' =
     Some (''o1-mini'', caps 65536 128000 False False (Some True) (Some 3) (Some 12)) \<and>
   first_prefix_match FOUNDRY_MODEL_CAPABILITIES ''o1-mini-2024-09-12'' =
     Some (''o1'', caps 100000 200000 True False (Some True) (Some 15) (Some 60)) \<and>
   getModelCapabilities ''o1-mini-2024-09-12'' =
     \<lparr>maxTokens = Some 100000, contextWindow = Some 200000, supportsImages = Some True,
      supportsPromptCache = Some False, supportsReasoning = Some True,
      inputPrice = Some 15, outputPrice = Some 60\<rparr> \<and>
   getModelCapabilities ''o1-mini-2024-09-12'' \<noteq> getModelCapabilities ''o1-mini'' \<and>
   longest_prefix_match FOUNDRY_MODEL_CAPABILITIES ''gpt-4.1-2025-04-14'' =
     Some (''gpt-4.1'', caps 32768 1047576 True False None (Some 2) (Some 8)) \<and>
   maxTokens (getModelCapabilities ''gpt-4.1-2025-04-14'') = Some 8192 \<and>
   maxTokens (getModelCapabilities_ui ''gpt-4.1-2025-04-14'') = Some 32768"
  by (simp add: getModelCapabilities_def getModelCapabilities_ui_def resolve_in_def
      FOUNDRY_MODEL_CAPABILITIES_def MODEL_CAPABILITIES_def object_prototype_keys_def
      spread_def over_def caps_def DEFAULT_MODEL_INFO_def DEFAULT_MODEL_INFO_ui_def)

section \<open>Error classification\<close>

lemma str_includes_iff: "str_includes s sub \<longleftrightarrow> (\<exists>a b. s = a @ sub @ b)"
proof (induction s)
  case Nil
  then show ?case by auto
next
  case (Cons c cs)
  show ?case
  proof
    assume "str_includes (c # cs) sub"
    then consider "startsWith (c # cs) sub" | "str_includes cs sub" by auto
    then show "\<exists>a b. c # cs = a @ sub @ b"
    proof cases
      case 1
      then obtain t where "c # cs = sub @ t" using startsWith_iff by blast
      then have "c # cs = [] @ sub @ t" by simp
      then show ?thesis by blast
    next
      case 2
      then obtain a b where "cs = a @ sub @ b" using Cons.IH by blast
      then have "c # cs = (c # a) @ sub @ b" by simp
      then show ?thesis by blast
    qed
  next
    assume "\<exists>a b. c # cs = a @ sub @ b"
    then obtain a b where ab: "c # cs = a @ sub @ b" by blast
    show "str_includes (c # cs) sub"
    proof (cases a)
      case Nil
      with ab have "startsWith (c # cs) sub" using startsWith_iff by auto
      then show ?thesis by simp
    next
      case (Cons x a')
      with ab have "cs = a' @ sub @ b" by simp
      then have "str_includes cs sub" using Cons.IH by blast
      then show ?thesis by simp
    qed
  qed
qed

lemmas err_eval = getDetailedErrorMessage_def is_401_def is_403_def is_404_def is_429_def
  is_network_def deployment_hint_def status_of_def truthy_bool_def msg_az_login_def
  msg_invalid_key_def msg_forbidden_def msg_deployment_not_found_def msg_not_found_def
  msg_rate_limit_def msg_network_def msg_default_def interpolate_def




section \<open>Provisioning the client\<close>

lemma getAudienceScope_throws:
  "isl (getAudienceScope opts) \<longleftrightarrow> stack_scope_missing opts"
  by (cases "microsoftFoundryCloudEnvironment opts"; cases "microsoftFoundryEndpoint opts")
     (auto simp: getAudienceScope_def stack_scope_missing_def value_of_def Let_def toLowerCase_def
        split: cloud_environment.splits)

lemma construct_client_fails_iff:
  "isl (construct_client lib opts) \<longleftrightarrow>
     (truthy_bool (microsoftFoundryUseIdentity opts) \<and>
      (newDefaultAzureCredential lib \<noteq> None \<or> stack_scope_missing opts \<or>
       (\<exists>scope. getAudienceScope opts = Inr scope \<and>
          (getBearerTokenProvider lib scope \<noteq> None \<or>
           newAzureOpenAI lib
             \<lparr>client_endpoint = value_of (microsoftFoundryEndpoint opts),
              client_credentials = AzureADTokenProvider scope,
              client_apiVersion = getApiVersion opts\<rparr> \<noteq> None)))) \<or>
     (\<not> truthy_bool (microsoftFoundryUseIdentity opts) \<and>
      newAzureOpenAI lib
        \<lparr>client_endpoint = value_of (microsoftFoundryEndpoint opts),
         client_credentials = ApiKey (value_of (microsoftFoundryApiKey opts)),
         client_apiVersion = getApiVersion opts\<rparr> \<noteq> None)"
  using getAudienceScope_throws [of opts]
  by (auto simp: construct_client_def Let_def split: option.splits sum.splits)

lemma ensureClient_cached: "client h = Some c \<Longrightarrow> ensureClient lib h = (Inr c, h)"
  by (simp add: ensureClient_def)

lemma ensureClient_options: "options (snd (ensureClient lib h)) = options h"
  by (auto simp: ensureClient_def Let_def split: option.splits sum.splits)

lemma ensureClient_fails_iff:
  "client h = None \<Longrightarrow>
   isl (fst (ensureClient lib h)) \<longleftrightarrow>
     \<not> truthy_str (microsoftFoundryEndpoint (options h)) \<or>
     (\<not> truthy_str (microsoftFoundryApiKey (options h)) \<and>
      \<not> truthy_bool (microsoftFoundryUseIdentity (options h))) \<or>
     isl (construct_client lib (options h))"
  by (auto simp: ensureClient_def Let_def split: sum.splits)

lemma ensureClient_failure_keeps:
  "isl (fst (ensureClient lib h)) \<Longrightarrow> snd (ensureClient lib h) = h \<and> client h = None"
  by (auto simp: ensureClient_def Let_def split: option.splits sum.splits if_splits)

lemma ensureClient_success_stores:
  "fst (ensureClient lib h) = Inr c \<Longrightarrow> client (snd (ensureClient lib h)) = Some c"
  by (auto simp: ensureClient_def Let_def split: option.splits sum.splits if_splits)

lemma ensureClient_repeat:
  "client h1 = Some c \<Longrightarrow> ((snd \<circ> ensureClient lib) ^^ n) h1 = h1"
  by (induction n) (simp_all add: ensureClient_cached)

lemmas client_eval = ensureClient_def construct_client_def no_throw_def key_handler_def
  identity_handler_def truthy_str_def truthy_bool_def value_of_def Let_def getApiVersion_def
  getAudienceScope_def toLowerCase_def lower_char_def

text \<open>
  Claim C9 says that \<open>ensureClient\<close> fails exactly when the endpoint is absent or when
  neither an API key nor identity-based authentication is selected. It also fails
  whenever something inside its \<open>try\<close> block throws. With an endpoint and Azure Identity
  selected, the Stack environment without a custom scope makes \<open>getAudienceScope\<close> throw
  (unless the endpoint names \<open>azure.us\<close> or \<open>azure.com\<close>), even when no library call
  throws; and with an endpoint and an API key, an error thrown by the \<open>AzureOpenAI\<close>
  constructor is rethrown.
\<close>

theorem ensureClient_exactly_when_counterexample:
  "truthy_str (microsoftFoundryEndpoint
      (options (identity_handler ''https://foundry.contoso.local'' Stack None))) \<and>
   truthy_bool (microsoftFoundryUseIdentity
      (options (identity_handler ''https://foundry.contoso.local'' Stack None))) \<and>
   ensureClient no_throw (identity_handler ''https://foundry.contoso.local'' Stack None) =
     (Inl (''Microsoft Foundry error: Azure Stack environment requires a custom audience scope. Please configure '' @
           [CHR 0x27] @ ''Custom Scope'' @ [CHR 0x27] @ '' in the provider settings.''),
      identity_handler ''https://foundry.contoso.local'' Stack None) \<and>
   truthy_str (microsoftFoundryEndpoint (options (key_handler (Some ''gpt-4o'') None None))) \<and>
   truthy_str (microsoftFoundryApiKey (options (key_handler (Some ''gpt-4o'') None None))) \<and>
   ensureClient
     (no_throw\<lparr>newAzureOpenAI :=
        (\<lambda>c. Some \<lparr>message = ''constructor failed'', status = None, statusCode = None\<rparr>)\<rparr>)
     (key_handler (Some ''gpt-4o'') None None) =
     (Inl ''Microsoft Foundry error: constructor failed'', key_handler (Some ''gpt-4o'') None None)"
  by (simp add: client_eval err_eval msg_stack_scope_def)

text \<open>
  Claim C9, amended. On a handler without a client, \<open>ensureClient\<close> fails exactly when
  the endpoint is missing or empty, or neither an API key nor Azure Identity is selected,
  or something in its \<open>try\<close> block throws: under Azure Identity the credential
  constructor, \<open>getAudienceScope\<close> (Stack environment, no custom scope, endpoint naming
  neither public cloud), the token provider or the client constructor; under an API key
  the client constructor. The first two failures carry their own texts. A failed call
  leaves the handler as it was, without a client. A successful call stores the client it
  returns, which holds the configured endpoint, and leaves the options alone; every later
  call on that handler, however many and whatever the libraries do by then, returns the
  same client and changes nothing.
\<close>

theorem ensureClient_fails_or_caches:
  "(client h = None \<longrightarrow>
      (isl (fst (ensureClient lib h)) \<longleftrightarrow>
         \<not> truthy_str (microsoftFoundryEndpoint (options h)) \<or>
         (\<not> truthy_str (microsoftFoundryApiKey (options h)) \<and>
          \<not> truthy_bool (microsoftFoundryUseIdentity (options h))) \<or>
         (truthy_bool (microsoftFoundryUseIdentity (options h)) \<and>
          (newDefaultAzureCredential lib \<noteq> None \<or> stack_scope_missing (options h) \<or>
           (\<exists>scope. getAudienceScope (options h) = Inr scope \<and>
              (getBearerTokenProvider lib scope \<noteq> None \<or>
               newAzureOpenAI lib
                 \<lparr>client_endpoint = value_of (microsoftFoundryEndpoint (options h)),
                  client_credentials = AzureADTokenProvider scope,
                  client_apiVersion = getApiVersion (options h)\<rparr> \<noteq> None)))) \<or>
         (\<not> truthy_bool (microsoftFoundryUseIdentity (options h)) \<and>
          newAzureOpenAI lib
            \<lparr>client_endpoint = value_of (microsoftFoundryEndpoint (options h)),
             client_credentials = ApiKey (value_of (microsoftFoundryApiKey (options h))),
             client_apiVersion = getApiVersion (options h)\<rparr> \<noteq> None))) \<and>
   (client h = None \<and> \<not> truthy_str (microsoftFoundryEndpoint (options h)) \<longrightarrow>
      fst (ensureClient lib h) =
        Inl ''Microsoft Foundry endpoint is required. Please configure the endpoint URL.'') \<and>
   (client h = None \<and> truthy_str (microsoftFoundryEndpoint (options h)) \<and>
    \<not> truthy_str (microsoftFoundryApiKey (options h)) \<and>
    \<not> truthy_bool (microsoftFoundryUseIdentity (options h)) \<longrightarrow>
      fst (ensureClient lib h) =
        Inl ''Microsoft Foundry requires either an API key or Azure Identity authentication. Please configure one of these options.'') \<and>
   (isl (fst (ensureClient lib h)) \<longrightarrow> snd (ensureClient lib h) = h \<and> client h = None) \<and>
   (\<forall>c. fst (ensureClient lib h) = Inr c \<longrightarrow>
        client (snd (ensureClient lib h)) = Some c \<and>
        options (snd (ensureClient lib h)) = options h \<and>
        (client h = None \<longrightarrow>
           client_endpoint c = value_of (microsoftFoundryEndpoint (options h))) \<and>
        (\<forall>n lib'. ensureClient lib' (((snd \<circ> ensureClient lib') ^^ n) (snd (ensureClient lib h))) =
                  (Inr c, snd (ensureClient lib h))))"
proof -
  have a: "client h = None \<longrightarrow>
      (isl (fst (ensureClient lib h)) \<longleftrightarrow>
         \<not> truthy_str (microsoftFoundryEndpoint (options h)) \<or>
         (\<not> truthy_str (microsoftFoundryApiKey (options h)) \<and>
          \<not> truthy_bool (microsoftFoundryUseIdentity (options h))) \<or>
         (truthy_bool (microsoftFoundryUseIdentity (options h)) \<and>
          (newDefaultAzureCredential lib \<noteq> None \<or> stack_scope_missing (options h) \<or>
           (\<exists>scope. getAudienceScope (options h) = Inr scope \<and>
              (getBearerTokenProvider lib scope \<noteq> None \<or>
               newAzureOpenAI lib
                 \<lparr>client_endpoint = value_of (microsoftFoundryEndpoint (options h)),
                  client_credentials = AzureADTokenProvider scope,
                  client_apiVersion = getApiVersion (options h)\<rparr> \<noteq> None)))) \<or>
         (\<not> truthy_bool (microsoftFoundryUseIdentity (options h)) \<and>
          newAzureOpenAI lib
            \<lparr>client_endpoint = value_of (microsoftFoundryEndpoint (options h)),
             client_credentials = ApiKey (value_of (microsoftFoundryApiKey (options h))),
             client_apiVersion = getApiVersion (options h)\<rparr> \<noteq> None))"
    using ensureClient_fails_iff [of h lib] construct_client_fails_iff [of lib "options h"]
    by simp
  have m1: "client h = None \<and> \<not> truthy_str (microsoftFoundryEndpoint (options h)) \<longrightarrow>
      fst (ensureClient lib h) =
        Inl ''Microsoft Foundry endpoint is required. Please configure the endpoint URL.''"
    by (simp add: ensureClient_def Let_def msg_endpoint_required_def)
  have m2: "client h = None \<and> truthy_str (microsoftFoundryEndpoint (options h)) \<and>
    \<not> truthy_str (microsoftFoundryApiKey (options h)) \<and>
    \<not> truthy_bool (microsoftFoundryUseIdentity (options h)) \<longrightarrow>
      fst (ensureClient lib h) =
        Inl ''Microsoft Foundry requires either an API key or Azure Identity authentication. Please configure one of these options.''"
    by (simp add: ensureClient_def Let_def msg_auth_required_def)
  have b: "isl (fst (ensureClient lib h)) \<longrightarrow> snd (ensureClient lib h) = h \<and> client h = None"
    using ensureClient_failure_keeps by blast
  have c: "\<forall>c. fst (ensureClient lib h) = Inr c \<longrightarrow>
        client (snd (ensureClient lib h)) = Some c \<and>
        options (snd (ensureClient lib h)) = options h \<and>
        (client h = None \<longrightarrow>
           client_endpoint c = value_of (microsoftFoundryEndpoint (options h))) \<and>
        (\<forall>n lib'. ensureClient lib' (((snd \<circ> ensureClient lib') ^^ n) (snd (ensureClient lib h))) =
                  (Inr c, snd (ensureClient lib h)))"
  proof (intro allI impI conjI)
    fix c n lib'
    assume ok: "fst (ensureClient lib h) = Inr c"
    then show stored: "client (snd (ensureClient lib h)) = Some c"
      by (rule ensureClient_success_stores)
    show "options (snd (ensureClient lib h)) = options h"
      by (rule ensureClient_options)
    from stored
    have "((snd \<circ> ensureClient lib') ^^ n) (snd (ensureClient lib h)) = snd (ensureClient lib h)"
      by (rule ensureClient_repeat)
    with stored
    show "ensureClient lib' (((snd \<circ> ensureClient lib') ^^ n) (snd (ensureClient lib h))) =
               (Inr c, snd (ensureClient lib h))"
      by (simp add: ensureClient_cached)
  next
    fix c
    assume ok: "fst (ensureClient lib h) = Inr c" and none: "client h = None"
    then show "client_endpoint c = value_of (microsoftFoundryEndpoint (options h))"
      by (auto simp: ensureClient_def construct_client_def Let_def
          split: if_splits option.splits sum.splits)
  qed
  from a m1 m2 b c show ?thesis by blast
qed

theorem ensureClient_fails_or_caches_witness:
  "client (key_handler (Some ''gpt-4o'') None None) = None \<and>
   fst (ensureClient no_throw (key_handler (Some ''gpt-4o'') None None)) =
     Inr \<lparr>client_endpoint = ''https://example.com'', client_credentials = ApiKey ''test-key'',
          client_apiVersion = AzureOpenAiDefaultApiVersion\<rparr> \<and>
   ensureClient no_throw (snd (ensureClient no_throw (key_handler (Some ''gpt-4o'') None None))) =
     (Inr \<lparr>client_endpoint = ''https://example.com'', client_credentials = ApiKey ''test-key'',
           client_apiVersion = AzureOpenAiDefaultApiVersion\<rparr>,
      snd (ensureClient no_throw (key_handler (Some ''gpt-4o'') None None))) \<and>
   fst (ensureClient no_throw (identity_handler ''https://res.openai.azure.us'' Stack None)) =
     Inr \<lparr>client_endpoint = ''https://res.openai.azure.us'',
          client_credentials = AzureADTokenProvider ''https://cognitiveservices.azure.us/.default'',
          client_apiVersion = AzureOpenAiDefaultApiVersion\<rparr> \<and>
   fst (ensureClient no_throw
          \<lparr>options = (options (key_handler (Some ''gpt-4o'') None None))
                        \<lparr>microsoftFoundryEndpoint := None\<rparr>,
           client = None\<rparr>) =
     Inl ''Microsoft Foundry endpoint is required. Please configure the endpoint URL.''"
proof -
  let ?c = "\<lparr>client_endpoint = ''https://example.com'', client_credentials = ApiKey ''test-key'',
          client_apiVersion = AzureOpenAiDefaultApiVersion\<rparr>"
  let ?bad = "\<lparr>options = (options (key_handler (Some ''gpt-4o'') None None))
                        \<lparr>microsoftFoundryEndpoint := None\<rparr>,
           client = None\<rparr>"
  have ok: "fst (ensureClient no_throw (key_handler (Some ''gpt-4o'') None None)) = Inr ?c"
    by (simp add: client_eval)
  have none: "client (key_handler (Some ''gpt-4o'') None None) = None"
    by (simp add: key_handler_def)
  have again: "ensureClient no_throw
                 (snd (ensureClient no_throw (key_handler (Some ''gpt-4o'') None None))) =
     (Inr ?c, snd (ensureClient no_throw (key_handler (Some ''gpt-4o'') None None)))"
    using ensureClient_fails_or_caches
      [where h = "key_handler (Some ''gpt-4o'') None None" and lib = no_throw] ok
    by (metis funpow_0)
  have gov: "fst (ensureClient no_throw (identity_handler ''https://res.openai.azure.us'' Stack None)) =
     Inr \<lparr>client_endpoint = ''https://res.openai.azure.us'',
          client_credentials = AzureADTokenProvider ''https://cognitiveservices.azure.us/.default'',
          client_apiVersion = AzureOpenAiDefaultApiVersion\<rparr>"
    by (simp add: client_eval)
  have noep: "fst (ensureClient no_throw ?bad) =
     Inl ''Microsoft Foundry endpoint is required. Please configure the endpoint URL.''"
    using ensureClient_fails_or_caches [where h = ?bad and lib = no_throw]
    by (simp add: key_handler_def truthy_str_def)
  from ok none again gov noep show ?thesis by blast
qed

section \<open>Shaping the request\<close>

lemma createMessage_requests:
  "requests (fst (createMessage lib h sp cv tp proc st0 create)) =
     (if isl (fst (ensureClient lib h)) \<or> \<not> truthy_str (microsoftFoundryDeploymentId (options h))
      then []
      else [request_params (options h) (value_of (microsoftFoundryDeploymentId (options h))) sp cv tp])"
proof (cases "ensureClient lib h")
  case (Pair res h')
  then have o: "options h' = options h"
    using ensureClient_options [of lib h] by simp
  show ?thesis
  proof (cases res)
    case (Inl thrown)
    with Pair show ?thesis by (simp add: createMessage_def)
  next
    case (Inr c)
    with Pair o show ?thesis
      by (cases "create c (request_params (options h)
                  (value_of (microsoftFoundryDeploymentId (options h))) sp cv tp)")
         (simp_all add: createMessage_def Let_def)
  qed
qed

lemma createMessage_events:
  "events (fst (createMessage lib h sp cv tp proc st0 (\<lambda>c rq. Streaming cs thrown))) =
     (if isl (fst (ensureClient lib h)) \<or> \<not> truthy_str (microsoftFoundryDeploymentId (options h))
      then []
      else fst (for_await proc st0 cs))"
proof (cases "ensureClient lib h")
  case (Pair res h')
  then have o: "options h' = options h"
    using ensureClient_options [of lib h] by simp
  show ?thesis
  proof (cases res)
    case (Inl thrown)
    with Pair show ?thesis by (simp add: createMessage_def)
  next
    case (Inr c)
    with Pair o show ?thesis by (simp add: createMessage_def Let_def)
  qed
qed

lemma request_params_model:
  "model (request_params opts d sp cv tp) = d"
  by (simp add: request_params_def Let_def)

lemma request_params_temperature:
  "temperature (request_params opts d sp cv tp) =
     (if isReasoningModel (model_info_of opts d) (toLowerCase d) \<or>
         str_includes (toLowerCase d) ''gpt-5'' \<or> str_includes (toLowerCase d) ''gpt5''
      then Undefined else Present (7 / 10))"
  by (auto simp: request_params_def Let_def noTemperatureSupport_def)

lemmas shape_eval = request_params_def isReasoningModel_def noTemperatureSupport_def
  model_info_of_def getModelCapabilities_def resolve_in_def FOUNDRY_MODEL_CAPABILITIES_def
  object_prototype_keys_def caps_def

text \<open>
  Claim C4 makes a model reasoning-class when its capability record declares reasoning
  support or its identifier matches one of the prefixes \<open>o1\<close>, \<open>o3\<close>, \<open>o4\<close> (and has
  no \<open>chat\<close>), and promises the \<open>system\<close> role and no \<open>reasoning_effort\<close> otherwise.
  The code looks for \<open>o1\<close>, \<open>o3\<close>, \<open>o4\<close> anywhere in the lower-cased identifier: the
  deployment \<open>my-o1-deployment\<close>, with no capability record of its own, starts with none
  of the prefixes and still gets the \<open>developer\<close> role and a \<open>reasoning_effort\<close>.
\<close>

theorem reasoning_class_counterexample:
  "\<not> reasoning_class_by_prefix
       (model_info_of (options (key_handler (Some ''my-o1-deployment'') None None))
          ''my-o1-deployment'')
       ''my-o1-deployment'' \<and>
   requests (fst (createMessage no_throw (key_handler (Some ''my-o1-deployment'') None None)
       ''sys'' ([] :: unit list) () pass_through ()
       (\<lambda>c rq. Streaming [] None))) =
     [\<lparr>model = ''my-o1-deployment'', messages = [RoleContent ''developer'' ''sys''],
       temperature = Undefined, reasoning_effort = Present ''medium'', stream = True,
       include_usage = True, tool_params = ()\<rparr>]"
  by (simp add: createMessage_def client_eval shape_eval reasoning_class_by_prefix_def
      DEFAULT_MODEL_INFO_def)

text \<open>
  Claim C4, amended. The request that \<open>createMessage\<close> issues names the configured
  deployment as its model. If the capability record declares reasoning support, or the
  lower-cased deployment identifier contains \<open>o1\<close>, \<open>o3\<close> or \<open>o4\<close> anywhere and does
  not contain \<open>chat\<close>, the system prompt is the first message, under the \<open>developer\<close>
  role, and \<open>reasoning_effort\<close> is the caller's hint, or \<open>medium\<close> when the hint is
  missing or empty. Otherwise the system prompt is the first message under the \<open>system\<close>
  role and the request has no \<open>reasoning_effort\<close> key.
\<close>

theorem createMessage_reasoning_shape:
  "rq \<in> set (requests (fst (createMessage lib h sp cv tp proc st0 create))) \<Longrightarrow>
   model rq = value_of (microsoftFoundryDeploymentId (options h)) \<and>
   (isReasoningModel (model_info_of (options h) (model rq)) (toLowerCase (model rq)) \<longrightarrow>
      messages rq = RoleContent ''developer'' sp # map Converted cv \<and>
      reasoning_effort rq =
        Present (if truthy_str (reasoningEffort (options h))
                 then value_of (reasoningEffort (options h)) else ''medium'')) \<and>
   (\<not> isReasoningModel (model_info_of (options h) (model rq)) (toLowerCase (model rq)) \<longrightarrow>
      messages rq = RoleContent ''system'' sp # map Converted cv \<and>
      reasoning_effort rq = Absent)"
proof -
  assume "rq \<in> set (requests (fst (createMessage lib h sp cv tp proc st0 create)))"
  then have rq: "rq = request_params (options h)
                   (value_of (microsoftFoundryDeploymentId (options h))) sp cv tp"
    by (simp add: createMessage_requests split: if_splits)
  show ?thesis
    unfolding rq by (simp add: request_params_def Let_def)
qed

theorem createMessage_reasoning_shape_witness:
  "requests (fst (createMessage
       no_throw (key_handler (Some ''o1'') (Some (caps 100000 200000 True False (Some True) (Some 0) (Some 0)))
          (Some ''low''))
       ''sys'' ([] :: unit list) () pass_through ()
       (\<lambda>c rq. Streaming [] None))) =
     [\<lparr>model = ''o1'', messages = [RoleContent ''developer'' ''sys''], temperature = Undefined,
       reasoning_effort = Present ''low'', stream = True, include_usage = True,
       tool_params = ()\<rparr>] \<and>
   requests (fst (createMessage
       no_throw (key_handler (Some ''gpt-4o'') (Some (caps 8192 128000 True False (Some False) (Some 0) (Some 0)))
          (Some ''high''))
       ''sys'' ([] :: unit list) () pass_through ()
       (\<lambda>c rq. Streaming [] None))) =
     [\<lparr>model = ''gpt-4o'', messages = [RoleContent ''system'' ''sys''],
       temperature = Present (7 / 10), reasoning_effort = Absent, stream = True,
       include_usage = True, tool_params = ()\<rparr>] \<and>
   reasoning_effort (request_params (options (key_handler (Some ''o3-mini'') None None))
       ''o3-mini'' ''sys'' ([] :: unit list) ()) = Present ''medium''"
proof -
  let ?h1 = "key_handler (Some ''o1'') (Some (caps 100000 200000 True False (Some True) (Some 0) (Some 0)))
          (Some ''low'')"
  let ?h2 = "key_handler (Some ''gpt-4o'') (Some (caps 8192 128000 True False (Some False) (Some 0) (Some 0)))
          (Some ''high'')"
  let ?r1 = "\<lparr>model = ''o1'', messages = [RoleContent ''developer'' ''sys''], temperature = Undefined,
       reasoning_effort = Present ''low'', stream = True, include_usage = True,
       tool_params = ()\<rparr> :: (unit, unit) completion_params"
  let ?r2 = "\<lparr>model = ''gpt-4o'', messages = [RoleContent ''system'' ''sys''],
       temperature = Present (7 / 10), reasoning_effort = Absent, stream = True,
       include_usage = True, tool_params = ()\<rparr> :: (unit, unit) completion_params"
  have a: "requests (fst (createMessage no_throw ?h1 ''sys'' ([] :: unit list) () pass_through
              () (\<lambda>c rq. Streaming [] None))) = [?r1]"
    by (simp add: createMessage_def client_eval shape_eval)
  have b: "requests (fst (createMessage no_throw ?h2 ''sys'' ([] :: unit list) () pass_through
              () (\<lambda>c rq. Streaming [] None))) = [?r2]"
    by (simp add: createMessage_def client_eval shape_eval)
  have c: "reasoning_effort (request_params (options (key_handler (Some ''o3-mini'') None None))
       ''o3-mini'' ''sys'' ([] :: unit list) ()) = Present ''medium''"
    by (simp add: client_eval shape_eval)
  have "?r1 \<in> set (requests (fst (createMessage no_throw ?h1 ''sys'' ([] :: unit list) ()
          pass_through () (\<lambda>c rq. Streaming [] None))))"
    using a by simp
  from createMessage_reasoning_shape [OF this]
  have "model ?r1 = ''o1''"
    by (simp add: key_handler_def value_of_def)
  with a b c show ?thesis by blast
qed

text \<open>
  Claim C5 promises the default temperature for every model that is neither
  reasoning-class nor of the \<open>gpt-5\<close> family. With reasoning-class as the specification
  defines it (declared reasoning support, or an identifier that starts with \<open>o1\<close>,
  \<open>o3\<close> or \<open>o4\<close>), the deployment \<open>my-o1-deployment\<close> is such a model: its record
  is the default one, it starts with none of the prefixes and has no \<open>gpt-5\<close> or
  \<open>gpt5\<close> in it. The code finds \<open>o1\<close> inside the identifier and issues the request
  with \<open>temperature\<close> bound to \<open>undefined\<close>, so that no temperature is sent.
\<close>

theorem temperature_counterexample:
  "\<not> reasoning_class_by_prefix
       (model_info_of (options (key_handler (Some ''my-o1-deployment'') None None))
          ''my-o1-deployment'')
       ''my-o1-deployment'' \<and>
   \<not> str_includes ''my-o1-deployment'' ''gpt-5'' \<and>
   \<not> str_includes ''my-o1-deployment'' ''gpt5'' \<and>
   map temperature
     (requests (fst (createMessage no_throw (key_handler (Some ''my-o1-deployment'') None None)
        ''sys'' ([] :: unit list) () pass_through () (\<lambda>c rq. Streaming [] None)))) =
     [Undefined] \<and>
   map (\<lambda>rq. sent (temperature rq))
     (requests (fst (createMessage no_throw (key_handler (Some ''my-o1-deployment'') None None)
        ''sys'' ([] :: unit list) () pass_through () (\<lambda>c rq. Streaming [] None)))) =
     [None]"
  by (simp add: createMessage_requests)
     (simp add: client_eval shape_eval reasoning_class_by_prefix_def DEFAULT_MODEL_INFO_def
        sent_def)

text \<open>
  Claim C5, amended. The request that \<open>createMessage\<close> issues names the configured
  deployment as its model. If the capability record declares reasoning support, or the
  lower-cased deployment identifier contains \<open>o1\<close>, \<open>o3\<close> or \<open>o4\<close> anywhere and does
  not contain \<open>chat\<close>, or it contains \<open>gpt-5\<close> or \<open>gpt5\<close> anywhere, then the request
  object has its \<open>temperature\<close> key bound to \<open>undefined\<close> (the key is there, without
  a value), so that the body sent to the provider carries no temperature. For every
  other model the temperature is the fixed default 0.7, and it is sent.
\<close>

theorem createMessage_temperature:
  "rq \<in> set (requests (fst (createMessage lib h sp cv tp proc st0 create))) \<Longrightarrow>
   (let dl = toLowerCase (model rq);
        info = model_info_of (options h) (model rq);
        fixed = (supportsReasoning info = Some True \<or>
                 ((str_includes dl ''o1'' \<or> str_includes dl ''o3'' \<or> str_includes dl ''o4'') \<and>
                  \<not> str_includes dl ''chat'') \<or>
                 str_includes dl ''gpt-5'' \<or> str_includes dl ''gpt5'')
    in model rq = value_of (microsoftFoundryDeploymentId (options h)) \<and>
       (fixed \<longrightarrow> temperature rq = Undefined \<and> sent (temperature rq) = None) \<and>
       (\<not> fixed \<longrightarrow>
          temperature rq = Present (7 / 10) \<and> sent (temperature rq) = Some (7 / 10)))"
proof -
  assume "rq \<in> set (requests (fst (createMessage lib h sp cv tp proc st0 create)))"
  then have rq: "rq = request_params (options h)
                   (value_of (microsoftFoundryDeploymentId (options h))) sp cv tp"
    by (simp add: createMessage_requests split: if_splits)
  show ?thesis
    unfolding rq Let_def request_params_model request_params_temperature
    by (auto simp: sent_def isReasoningModel_def truthy_bool_def)
qed

theorem createMessage_temperature_witness:
  "requests (fst (createMessage no_throw
       (key_handler (Some ''o1-mini'')
          (Some (caps 65536 128000 False False (Some True) (Some 3) (Some 12))) (Some ''low''))
       ''sys'' ([] :: unit list) () pass_through () (\<lambda>c rq. Streaming [] None))) =
     [\<lparr>model = ''o1-mini'', messages = [RoleContent ''developer'' ''sys''],
       temperature = Undefined, reasoning_effort = Present ''low'', stream = True,
       include_usage = True, tool_params = ()\<rparr>] \<and>
   map temperature (requests (fst (createMessage no_throw
       (key_handler (Some ''GPT-5.2-chat'') None None)
       ''sys'' ([] :: unit list) () pass_through () (\<lambda>c rq. Streaming [] None)))) =
     [Undefined] \<and>
   requests (fst (createMessage no_throw
       (key_handler (Some ''gpt-4o'')
          (Some (caps 8192 128000 True False (Some False) (Some 0) (Some 0))) (Some ''high''))
       ''sys'' ([] :: unit list) () pass_through () (\<lambda>c rq. Streaming [] None))) =
     [\<lparr>model = ''gpt-4o'', messages = [RoleContent ''system'' ''sys''],
       temperature = Present (7 / 10), reasoning_effort = Absent, stream = True,
       include_usage = True, tool_params = ()\<rparr>] \<and>
   sent (Present (7 / 10 :: rat)) = Some (7 / 10) \<and>
   sent (Undefined :: rat property) = None"
proof -
  let ?h1 = "key_handler (Some ''o1-mini'')
          (Some (caps 65536 128000 False False (Some True) (Some 3) (Some 12))) (Some ''low'')"
  let ?h2 = "key_handler (Some ''GPT-5.2-chat'') None None"
  let ?h3 = "key_handler (Some ''gpt-4o'')
          (Some (caps 8192 128000 True False (Some False) (Some 0) (Some 0))) (Some ''high'')"
  let ?r1 = "\<lparr>model = ''o1-mini'', messages = [RoleContent ''developer'' ''sys''],
       temperature = Undefined, reasoning_effort = Present ''low'', stream = True,
       include_usage = True, tool_params = ()\<rparr> :: (unit, unit) completion_params"
  let ?r3 = "\<lparr>model = ''gpt-4o'', messages = [RoleContent ''system'' ''sys''],
       temperature = Present (7 / 10), reasoning_effort = Absent, stream = True,
       include_usage = True, tool_params = ()\<rparr> :: (unit, unit) completion_params"
  have a: "requests (fst (createMessage no_throw ?h1 ''sys'' ([] :: unit list) () pass_through ()
              (\<lambda>c rq. Streaming [] None))) = [?r1]"
    by (simp add: createMessage_requests) (simp add: client_eval shape_eval)
  have b: "map temperature (requests (fst (createMessage no_throw ?h2 ''sys'' ([] :: unit list) ()
              pass_through () (\<lambda>c rq. Streaming [] None)))) = [Undefined]"
    by (simp add: createMessage_requests)
       (simp add: client_eval shape_eval DEFAULT_MODEL_INFO_def spread_def over_def)
  have c: "requests (fst (createMessage no_throw ?h3 ''sys'' ([] :: unit list) () pass_through ()
              (\<lambda>c rq. Streaming [] None))) = [?r3]"
    by (simp add: createMessage_requests) (simp add: client_eval shape_eval)
  have "?r3 \<in> set (requests (fst (createMessage no_throw ?h3 ''sys'' ([] :: unit list) ()
          pass_through () (\<lambda>c rq. Streaming [] None))))"
    using c by simp
  from createMessage_temperature [OF this]
  have d: "sent (temperature ?r3) = Some (7 / 10)"
    by (simp add: Let_def key_handler_def model_info_of_def caps_def toLowerCase_def
        lower_char_def)
  have e: "sent (Undefined :: rat property) = None"
    by (simp add: sent_def)
  from a b c d e show ?thesis by simp
qed

text \<open>
  Claim C10. When the configuration lets \<open>ensureClient\<close> succeed and the options carry
  no deployment identifier (none, or an empty one), \<open>createMessage\<close> fails with the
  message that tells the user to select a deployment; it has yielded no event and issued
  no request to the provider.
\<close>

theorem createMessage_no_deployment:
  "\<not> isl (fst (ensureClient lib h)) \<Longrightarrow>
   \<not> truthy_str (microsoftFoundryDeploymentId (options h)) \<Longrightarrow>
   fst (createMessage lib h sp cv tp proc st0 create) =
     \<lparr>events = [], failure = Some msg_no_deployment, requests = []\<rparr> \<and>
   str_includes msg_no_deployment ''select a deployment''"
proof -
  assume ok: "\<not> isl (fst (ensureClient lib h))"
    and nodep: "\<not> truthy_str (microsoftFoundryDeploymentId (options h))"
  obtain res h' where p: "ensureClient lib h = (res, h')" by (cases "ensureClient lib h")
  then have o: "options h' = options h"
    using ensureClient_options [of lib h] by simp
  from ok p obtain c where "res = Inr c" by (cases res) auto
  with p o nodep have "fst (createMessage lib h sp cv tp proc st0 create) =
     \<lparr>events = [], failure = Some msg_no_deployment, requests = []\<rparr>"
    by (simp add: createMessage_def Let_def)
  moreover have "str_includes msg_no_deployment ''select a deployment''"
    by (simp add: msg_no_deployment_def)
  ultimately show ?thesis by blast
qed

theorem createMessage_no_deployment_witness:
  "\<not> isl (fst (ensureClient no_throw (key_handler None None None))) \<and>
   \<not> truthy_str (microsoftFoundryDeploymentId (options (key_handler None None None))) \<and>
   fst (createMessage no_throw (key_handler None None None) ''sys'' ([] :: unit list) ()
          pass_through () (\<lambda>c rq. Streaming [text_chunk ''hi''] None)) =
     \<lparr>events = [], failure = Some msg_no_deployment, requests = []\<rparr> \<and>
   fst (createMessage no_throw (key_handler (Some '''') None None) ''sys'' ([] :: unit list) ()
          pass_through () (\<lambda>c rq. Streaming [text_chunk ''hi''] None)) =
     \<lparr>events = [], failure = Some msg_no_deployment, requests = []\<rparr>"
proof -
  have a: "\<not> isl (fst (ensureClient no_throw (key_handler d None None)))" for d
    by (simp add: client_eval)
  have b: "\<not> truthy_str (microsoftFoundryDeploymentId (options (key_handler None None None)))"
    by (simp add: key_handler_def truthy_str_def)
  have c: "\<not> truthy_str (microsoftFoundryDeploymentId (options (key_handler (Some '''') None None)))"
    by (simp add: key_handler_def truthy_str_def)
  show ?thesis
    using a [of None] b
      createMessage_no_deployment [OF a b, of "''sys''" "[] :: unit list" "()"
        pass_through "()" "\<lambda>c rq. Streaming [text_chunk ''hi''] None"]
      createMessage_no_deployment [OF a c, of "''sys''" "[] :: unit list" "()"
        pass_through "()" "\<lambda>c rq. Streaming [text_chunk ''hi''] None"]
    by simp
qed

section \<open>Normalising the stream\<close>

lemma for_await_append:
  "for_await proc st (cs @ later) =
     (fst (for_await proc st cs) @ fst (for_await proc (snd (for_await proc st cs)) later),
      snd (for_await proc (snd (for_await proc st cs)) later))"
  by (induction cs arbitrary: st) (auto simp: split_beta Let_def)

lemma process_chunk_unrecognized:
  "unrecognized_shape c \<Longrightarrow> process_chunk proc st c = ([], st)"
  by (simp add: unrecognized_shape_def process_chunk_def)

lemma for_await_skip:
  assumes "unrecognized_shape u"
  shows "for_await proc st (pre @ u # post) = for_await proc st (pre @ post)"
proof -
  have "for_await proc st' (u # post) = for_await proc st' post" for st'
    using assms by (simp add: process_chunk_unrecognized)
  then show ?thesis by (simp add: for_await_append)
qed

lemma createMessage_stream_only:
  "createMessage lib h sp cv tp proc st0 (\<lambda>c rq. Streaming cs thrown) =
     (case ensureClient lib h of
        (Inl e, h') \<Rightarrow> (\<lparr>events = [], failure = Some e, requests = []\<rparr>, h')
      | (Inr c, h') \<Rightarrow>
          if \<not> truthy_str (microsoftFoundryDeploymentId (options h'))
          then (\<lparr>events = [], failure = Some msg_no_deployment, requests = []\<rparr>, h')
          else (\<lparr>events = fst (for_await proc st0 cs),
                 failure = map_option (getDetailedErrorMessage (options h')) thrown,
                 requests = [request_params (options h')
                               (value_of (microsoftFoundryDeploymentId (options h'))) sp cv tp]\<rparr>,
                h'))"
  by (simp add: createMessage_def Let_def split: prod.splits sum.splits)

lemma usage_of_process_chunk:
  "filter is_usage (fst (process_chunk proc st c)) = map usage_event (List.map_filter usage [c])"
  by (auto simp: process_chunk_def is_usage_def usage_event_def List.map_filter_def Let_def
      split_beta split: option.splits)

lemma usage_of_for_await:
  "filter is_usage (fst (for_await proc st cs)) = map usage_event (List.map_filter usage cs)"
proof (induction cs arbitrary: st)
  case Nil
  then show ?case by (simp add: List.map_filter_def)
next
  case (Cons c cs)
  have "filter is_usage (fst (for_await proc st (c # cs))) =
        filter is_usage (fst (process_chunk proc st c)) @
        filter is_usage (fst (for_await proc (snd (process_chunk proc st c)) cs))"
    by (simp add: split_beta)
  also have "\<dots> = map usage_event (List.map_filter usage [c]) @
                   map usage_event (List.map_filter usage cs)"
    using Cons.IH usage_of_process_chunk by metis
  also have "\<dots> = map usage_event (List.map_filter usage (c # cs))"
    by (simp add: List.map_filter_def)
  finally show ?case .
qed

lemmas stream_eval = tool_chunk_def text_chunk_def usage_chunk_def empty_chunk_def
  process_chunk_def first_delta_def usage_event_def or_zero_def pass_through_def

text \<open>
  Claim C2. A chunk of unrecognized shape, one in which the loop finds neither a first
  choice with a delta nor a usage block, yields no event and leaves the tool-call
  processor's state alone. With such a chunk anywhere in the stream, \<open>createMessage\<close>
  yields the same events, fails or succeeds in the same way and issues the same request
  as without it: the events of the chunks before it, in their order, followed by the
  events of the chunks after it, processed from the state reached before it.
\<close>

theorem createMessage_skips_unrecognized_chunk:
  "unrecognized_shape u \<Longrightarrow>
   process_chunk proc st u = ([], st) \<and>
   createMessage lib h sp cv tp proc st0 (\<lambda>c rq. Streaming (pre @ u # post) thrown) =
   createMessage lib h sp cv tp proc st0 (\<lambda>c rq. Streaming (pre @ post) thrown) \<and>
   events (fst (createMessage lib h sp cv tp proc st0 (\<lambda>c rq. Streaming (pre @ u # post) thrown))) =
     events (fst (createMessage lib h sp cv tp proc st0 (\<lambda>c rq. Streaming pre None))) @
     events (fst (createMessage lib h sp cv tp proc (snd (for_await proc st0 pre))
                    (\<lambda>c rq. Streaming post None)))"
proof -
  assume u: "unrecognized_shape u"
  have a: "process_chunk proc st u = ([], st)"
    using u by (rule process_chunk_unrecognized)
  have b: "createMessage lib h sp cv tp proc st0 (\<lambda>c rq. Streaming (pre @ u # post) thrown) =
           createMessage lib h sp cv tp proc st0 (\<lambda>c rq. Streaming (pre @ post) thrown)"
    by (simp only: createMessage_stream_only for_await_skip [OF u])
  have c: "events (fst (createMessage lib h sp cv tp proc st0 (\<lambda>c rq. Streaming (pre @ u # post) thrown))) =
     events (fst (createMessage lib h sp cv tp proc st0 (\<lambda>c rq. Streaming pre None))) @
     events (fst (createMessage lib h sp cv tp proc (snd (for_await proc st0 pre))
                    (\<lambda>c rq. Streaming post None)))"
    by (simp only: createMessage_events for_await_skip [OF u]) (simp add: for_await_append)
  from a b c show ?thesis by blast
qed

theorem createMessage_skips_unrecognized_chunk_witness:
  "unrecognized_shape (empty_chunk :: unit chunk) \<and>
   events (fst (createMessage no_throw (key_handler (Some ''gpt-4o'') None None) ''sys'' ([] :: unit list) ()
       pass_through ()
       (\<lambda>c rq. Streaming ([text_chunk ''Hel''] @ empty_chunk # [text_chunk ''lo'', usage_chunk 12 2])
                  None))) =
     [Text ''Hel'', Text ''lo'', Usage 12 2 0 0] \<and>
   failure (fst (createMessage no_throw (key_handler (Some ''gpt-4o'') None None) ''sys'' ([] :: unit list) ()
       pass_through ()
       (\<lambda>c rq. Streaming ([text_chunk ''Hel''] @ empty_chunk # [text_chunk ''lo'', usage_chunk 12 2])
                  None))) = None"
proof -
  have u: "unrecognized_shape (empty_chunk :: unit chunk)"
    by (simp add: unrecognized_shape_def empty_chunk_def first_delta_def)
  have e: "fst (createMessage no_throw (key_handler (Some ''gpt-4o'') None None) ''sys'' ([] :: unit list) ()
       pass_through ()
       (\<lambda>c rq. Streaming ([text_chunk ''Hel''] @ [text_chunk ''lo'', usage_chunk 12 2]) None)) =
     \<lparr>events = [Text ''Hel'', Text ''lo'', Usage 12 2 0 0], failure = None,
      requests = [request_params (options (key_handler (Some ''gpt-4o'') None None)) ''gpt-4o''
                    ''sys'' [] ()]\<rparr>"
    by (simp add: createMessage_stream_only) (simp add: client_eval stream_eval)
  show ?thesis
    using u e createMessage_skips_unrecognized_chunk [OF u,
        of pass_through "()" no_throw "key_handler (Some ''gpt-4o'') None None" "''sys''"
          "[] :: unit list" "()" "()" "[text_chunk ''Hel'']"
          "[text_chunk ''lo'', usage_chunk 12 2]" None]
    by simp
qed

text \<open>
  Claim C3 allows at most one usage event per request, however many chunks carry a usage
  block. The loop yields a usage event for every chunk that carries one: two such chunks
  give two usage events, the first of them a running total.
\<close>

theorem usage_events_counterexample:
  "filter is_usage (events (fst (createMessage no_throw (key_handler (Some ''gpt-4o'') None None) ''sys''
       ([] :: unit list) () pass_through ()
       (\<lambda>c rq. Streaming [text_chunk ''Hel'', usage_chunk 12 1, text_chunk ''lo'', usage_chunk 12 2]
                  None)))) =
     [Usage 12 1 0 0, Usage 12 2 0 0]"
  by (simp add: createMessage_stream_only) (simp add: client_eval stream_eval is_usage_def)

text \<open>
  Claim C3, amended. Whenever \<open>createMessage\<close> issues its request, the usage events it
  yields are, in arrival order, one for each chunk that carries a usage block, each built
  from that chunk's block alone (missing numbers read as 0, \<open>cacheWriteTokens\<close> always 0).
  So there are as many usage events as chunks with a usage block: a single one, with the
  final accounting, only if the provider puts a usage block in its final chunk alone.
\<close>

theorem createMessage_usage_per_chunk:
  "requests (fst (createMessage lib h sp cv tp proc st0 (\<lambda>c rq. Streaming cs thrown))) \<noteq> [] \<Longrightarrow>
   filter is_usage (events (fst (createMessage lib h sp cv tp proc st0 (\<lambda>c rq. Streaming cs thrown)))) =
     map usage_event (List.map_filter usage cs) \<and>
   length (filter is_usage
             (events (fst (createMessage lib h sp cv tp proc st0 (\<lambda>c rq. Streaming cs thrown))))) =
     length (filter (\<lambda>c. usage c \<noteq> None) cs)"
proof -
  assume "requests (fst (createMessage lib h sp cv tp proc st0 (\<lambda>c rq. Streaming cs thrown))) \<noteq> []"
  then have "\<not> (isl (fst (ensureClient lib h)) \<or>
               \<not> truthy_str (microsoftFoundryDeploymentId (options h)))"
    by (simp add: createMessage_requests split: if_splits)
  then have ev: "events (fst (createMessage lib h sp cv tp proc st0 (\<lambda>c rq. Streaming cs thrown))) =
                 fst (for_await proc st0 cs)"
    by (simp add: createMessage_events)
  have len: "length (List.map_filter usage cs) = length (filter (\<lambda>c. usage c \<noteq> None) cs)"
    by (induction cs) (auto simp: List.map_filter_def)
  show ?thesis
    unfolding ev usage_of_for_await using len by simp
qed

theorem createMessage_usage_per_chunk_witness:
  "requests (fst (createMessage no_throw (key_handler (Some ''gpt-4o'') None None) ''sys''
       ([] :: unit list) () pass_through ()
       (\<lambda>c rq. Streaming [text_chunk ''Hello'', usage_chunk 12 2] None))) \<noteq> [] \<and>
   filter is_usage (events (fst (createMessage no_throw (key_handler (Some ''gpt-4o'') None None) ''sys''
       ([] :: unit list) () pass_through ()
       (\<lambda>c rq. Streaming [text_chunk ''Hello'', usage_chunk 12 2] None)))) =
     [Usage 12 2 0 0]"
proof -
  have r: "requests (fst (createMessage no_throw (key_handler (Some ''gpt-4o'') None None) ''sys''
       ([] :: unit list) () pass_through ()
       (\<lambda>c rq. Streaming [text_chunk ''Hello'', usage_chunk 12 2] None))) \<noteq> []"
    by (simp add: createMessage_requests) (simp add: client_eval)
  have m: "map usage_event (List.map_filter usage [text_chunk ''Hello'', usage_chunk 12 2 :: unit chunk]) =
           [Usage 12 2 0 0 :: unit api_stream_chunk]"
    by (simp add: List.map_filter_def stream_eval)
  show ?thesis
    using r m createMessage_usage_per_chunk [OF r] by simp
qed

text \<open>
  Claim C1 requires that an accumulator still open when the provider's stream ends is
  flushed as a completed tool call. The loop is the last statement of the \<open>try\<close> block:
  with the reassembler of the specification, a stream whose only chunk carries a fragment
  of tool call 0 ends with that accumulator open, and \<open>createMessage\<close> has yielded the
  fragment's delta and no completed tool call.
\<close>

theorem stream_end_flush_counterexample:
  "snd (for_await processToolCallDeltas new_reassembler
          [tool_chunk [\<lparr>tc_index = 0, idFragment = Some ''call_1'', nameFragment = Some ''read_file'',
                        argumentFragment = Some ''{}''\<rparr>]]) =
     \<lparr>accumulating = [(0, \<lparr>pending_id = ''call_1'', pending_name = ''read_file'',
                             argumentBuffer = ''{}''\<rparr>)],
      completed = []\<rparr> \<and>
   events (fst (createMessage no_throw (key_handler (Some ''gpt-4o'') None None) ''sys'' ([] :: unit list) ()
             processToolCallDeltas new_reassembler
             (\<lambda>c rq. Streaming
                [tool_chunk [\<lparr>tc_index = 0, idFragment = Some ''call_1'',
                              nameFragment = Some ''read_file'',
                              argumentFragment = Some ''{}''\<rparr>]] None))) =
     [ToolCalls (ToolCallDelta 0 (Some ''call_1'') (Some ''read_file'') (Some ''{}''))] \<and>
   failure (fst (createMessage no_throw (key_handler (Some ''gpt-4o'') None None) ''sys'' ([] :: unit list) ()
             processToolCallDeltas new_reassembler
             (\<lambda>c rq. Streaming
                [tool_chunk [\<lparr>tc_index = 0, idFragment = Some ''call_1'',
                              nameFragment = Some ''read_file'',
                              argumentFragment = Some ''{}''\<rparr>]] None))) = None"
  by (simp add: createMessage_stream_only)
     (simp add: client_eval stream_eval accept_fragment_def new_reassembler_def close_event_def)

text \<open>
  Claim C1, amended. \<open>createMessage\<close> yields events only for chunks that arrive, and
  nothing on account of the stream's end, whatever the tool-call processor is: the events
  of a stream that ends after some chunks are a prefix of the events of every stream that
  goes on, which then adds the events of the later chunks, processed from the state
  reached. A tool call that is still accumulating when the stream ends therefore gets no
  completed event; completion can only be yielded by \<open>processToolCallDeltas\<close> for a
  chunk that arrives.
\<close>

theorem createMessage_emits_nothing_at_stream_end:
  "events (fst (createMessage lib h sp cv tp proc st0 (\<lambda>c rq. Streaming (cs @ later) thrown))) =
     events (fst (createMessage lib h sp cv tp proc st0 (\<lambda>c rq. Streaming cs None))) @
     events (fst (createMessage lib h sp cv tp proc (snd (for_await proc st0 cs))
                    (\<lambda>c rq. Streaming later thrown)))"
  by (simp add: createMessage_events for_await_append)

end
